theory Spec2Isabelle
  imports Main "HOL-Library.Word"
begin

unbundle bit_operations_syntax

section \<open>Data shared by the two SDKs\<close>

text \<open>
  A byte of a Node \<open>Buffer\<close> or a Java \<open>byte[]\<close> is an 8-bit word. A JavaScript or
  Java string is a sequence of UTF-16 code units, so a character is a 16-bit word.
  \<open>js_str\<close> writes a string literal of the sources as code units.
\<close>

type_synonym byte = "8 word"
type_synonym jschar = "16 word"
type_synonym jsstring = "jschar list"

definition js_str :: "string \<Rightarrow> jsstring" where
  "js_str s = map (\<lambda>c. of_nat (of_char c)) s"

section \<open>The token-status callback of the sample applications\<close>

text \<open>
  The sample applications keep their token records in an array
  (\<open>tokenRecords\<close> in the Node app, \<open>RecoveryTokenRecordDao.records\<close> in the
  Spark app). A record's status is one of three values.
\<close>

datatype record_status = provisional | confirmed | invalid

record token_record =
  rec_status :: record_status
  rec_username :: jsstring
  rec_id :: jsstring
  rec_issuer :: jsstring
  rec_hash :: jsstring

record http_response =
  http_code :: nat
  http_body :: jsstring

text \<open>
  An assignment \<open>tokenRecord.status = s\<close>, where \<open>tokenRecord\<close> is the first record of
  the array with the given id, updates that element in place.
\<close>

fun set_status_first :: "jsstring \<Rightarrow> record_status \<Rightarrow> token_record list \<Rightarrow> token_record list" where
  "set_status_first i s [] = []"
| "set_status_first i s (r # rs) =
     (if rec_id r = i then r\<lparr>rec_status := s\<rparr> # rs else r # set_status_first i s rs)"

text \<open>\<open>tokenRecords.splice(tokenRecords.findIndex(record => record.id === id), 1)\<close>,
  called only when a record with that id exists.\<close>

fun splice_first :: "jsstring \<Rightarrow> token_record list \<Rightarrow> token_record list" where
  "splice_first i [] = []"
| "splice_first i (r # rs) = (if rec_id r = i then rs else r # splice_first i rs)"

text \<open>
  The Node handler \<open>app.post(delegatedRecoverySDK.STATUS_PATH, ...)\<close>. A form field
  that is absent reads as \<open>undefined\<close>, here \<open>None\<close>: no record has an undefined id and
  no \<open>case\<close> of the \<open>switch\<close> matches an undefined status.
\<close>

definition js_status_switch :: "jsstring \<Rightarrow> jsstring \<Rightarrow> token_record list \<Rightarrow> token_record list" where
  "js_status_switch i st tokenRecords =
     (if st = js_str ''save-success'' then set_status_first i confirmed tokenRecords
      else if st = js_str ''save-failure'' then splice_first i tokenRecords
      else if st = js_str ''token-repudiated'' then set_status_first i invalid tokenRecords
      else tokenRecords)"

definition js_token_status ::
  "token_record list \<Rightarrow> jsstring option \<Rightarrow> jsstring option \<Rightarrow> http_response \<times> token_record list" where
  "js_token_status tokenRecords req_id req_status =
     (let tokenRecords' =
        (case req_id of
           None \<Rightarrow> tokenRecords
         | Some i \<Rightarrow>
             (case find (\<lambda>r. rec_id r = i) tokenRecords of
                None \<Rightarrow> tokenRecords
              | Some tokenRecord \<Rightarrow>
                  (case req_status of
                     None \<Rightarrow> tokenRecords
                   | Some st \<Rightarrow> js_status_switch i st tokenRecords)))
      in (\<lparr>http_code = 200, http_body = []\<rparr>, tokenRecords'))"

text \<open>
  The Spark route \<open>post(DelegatedRecoveryConfiguration.TOKEN_STATUS_PATH, ...)\<close>.
  \<open>getTokenRecordById\<close> is \<open>findFirst\<close> over the records with the id;
  \<open>deleteRecordById\<close> is \<open>removeIf\<close>, which removes every record with the id.
  A missing query parameter is \<open>null\<close>, here \<open>None\<close>.
\<close>

definition getTokenRecordById :: "token_record list \<Rightarrow> jsstring option \<Rightarrow> token_record option" where
  "getTokenRecordById records i = find (\<lambda>r. Some (rec_id r) = i) records"

definition deleteRecordById :: "token_record list \<Rightarrow> jsstring \<Rightarrow> token_record list" where
  "deleteRecordById records i = filter (\<lambda>r. rec_id r \<noteq> i) records"

definition java_token_status ::
  "token_record list \<Rightarrow> jsstring option \<Rightarrow> jsstring option \<Rightarrow> http_response \<times> token_record list" where
  "java_token_status records req_id req_status =
     (let records' =
        (case (getTokenRecordById records req_id, req_id, req_status) of
           (Some r, Some i, Some st) \<Rightarrow>
             (if st = js_str ''save-success'' then set_status_first i confirmed records
              else if st = js_str ''save-failure'' \<or> st = js_str ''deleted''
                then deleteRecordById records i
              else if st = js_str ''token-repudiated'' then set_status_first i invalid records
              else records)
         | _ \<Rightarrow> records)
      in (\<lparr>http_code = 200, http_body = []\<rparr>, records'))"

text \<open>The record of scenario S1, with a 32-character hexadecimal id.\<close>

definition s1_record :: token_record where
  "s1_record = \<lparr>rec_status = provisional, rec_username = js_str ''alice'',
     rec_id = js_str ''00112233445566778899aabbccddeeff'',
     rec_issuer = js_str ''https://rp.example'', rec_hash = js_str ''00''\<rparr>"

section \<open>The origin pattern\<close>

text \<open>
  Both SDKs validate an origin with a regular expression handed to the platform's
  regular-expression engine. The engine is modelled by a matcher for the constructs the
  pattern uses: character classes (unions of inclusive ranges of code units),
  concatenation, and the quantifiers \<open>{lo,hi}\<close>, \<open>+\<close> (\<open>{1,}\<close>) and \<open>?\<close> (\<open>{0,1}\<close>).
  \<open>Zero\<close>, \<open>One\<close> and \<open>Alt\<close> only arise while matching. Capturing and non-capturing
  groups match the same strings, so a group is its body.
\<close>

datatype rexp = Zero | One | Cls "(jschar \<times> jschar) list" | Alt rexp rexp
  | Times rexp rexp | Rep rexp nat "nat option"

fun in_cls :: "jschar \<Rightarrow> (jschar \<times> jschar) list \<Rightarrow> bool" where
  "in_cls c [] = False"
| "in_cls c ((lo, hi) # rs) = ((lo \<le> c \<and> c \<le> hi) \<or> in_cls c rs)"

definition in_range :: "nat \<Rightarrow> nat option \<Rightarrow> nat \<Rightarrow> bool" where
  "in_range lo hi n = (lo \<le> n \<and> (case hi of None \<Rightarrow> True | Some h \<Rightarrow> n \<le> h))"

fun nullable :: "rexp \<Rightarrow> bool" where
  "nullable Zero = False"
| "nullable One = True"
| "nullable (Cls rs) = False"
| "nullable (Alt a b) = (nullable a \<or> nullable b)"
| "nullable (Times a b) = (nullable a \<and> nullable b)"
| "nullable (Rep r lo hi) = ((lo = 0 \<or> nullable r) \<and> in_range lo hi lo)"

fun deriv :: "jschar \<Rightarrow> rexp \<Rightarrow> rexp" where
  "deriv c Zero = Zero"
| "deriv c One = Zero"
| "deriv c (Cls rs) = (if in_cls c rs then One else Zero)"
| "deriv c (Alt a b) = Alt (deriv c a) (deriv c b)"
| "deriv c (Times a b) =
     (if nullable a then Alt (Times (deriv c a) b) (deriv c b) else Times (deriv c a) b)"
| "deriv c (Rep r lo hi) =
     (if hi = Some 0 then Zero
      else Times (deriv c r) (Rep r (lo - 1) (map_option (\<lambda>h. h - 1) hi)))"

text \<open>A match of the whole string: the pattern is anchored by \<open>^\<close> and \<open>$\<close> with no
  multiline flag in the Node SDK, and applied with \<open>Matcher.matches()\<close> in the Java SDK.\<close>

definition regex_matches :: "rexp \<Rightarrow> jsstring \<Rightarrow> bool" where
  "regex_matches r s = nullable (foldl (\<lambda>r c. deriv c r) r s)"

definition chr :: "jschar \<Rightarrow> rexp" where
  "chr c = Cls [(c, c)]"

definition lit :: "jsstring \<Rightarrow> rexp" where
  "lit s = foldr (\<lambda>c r. Times (chr c) r) s One"

text \<open>
  \<open>const originRegex = /^https:\/\/([a-z0-9-]{1,63}\.)+([a-z]{2,63})(:[\d]+)?$/;\<close>
  with \<open>a-z\<close> = 0x61..0x7A, \<open>0-9\<close> and \<open>\d\<close> = 0x30..0x39, \<open>-\<close> = 0x2D, \<open>.\<close> = 0x2E,
  \<open>:\<close> = 0x3A.
\<close>

definition originRegex :: rexp where
  "originRegex =
     Times (lit (js_str ''https://''))
    (Times (Rep (Times (Rep (Cls [(0x61, 0x7A), (0x30, 0x39), (0x2D, 0x2D)]) 1 (Some 63)) (chr 0x2E)) 1 None)
    (Times (Rep (Cls [(0x61, 0x7A)]) 2 (Some 63))
           (Rep (Times (chr 0x3A) (Rep (Cls [(0x30, 0x39)]) 1 None)) 0 (Some 1))))"

text \<open>
  \<open>Pattern.compile("^https://(?:[a-z0-9-]{1,63}\\.)+(?:[a-z]{2,63})(:[\\d]+)?$")\<close> of
  \<open>DelegatedRecoveryUtils\<close>.
\<close>

definition ORIGIN_REGEX :: rexp where
  "ORIGIN_REGEX =
     Times (lit (js_str ''https://''))
    (Times (Rep (Times (Rep (Cls [(0x61, 0x7A), (0x30, 0x39), (0x2D, 0x2D)]) 1 (Some 63)) (chr 0x2E)) 1 None)
    (Times (Rep (Cls [(0x61, 0x7A)]) 2 (Some 63))
           (Rep (Times (chr 0x3A) (Rep (Cls [(0x30, 0x39)]) 1 None)) 0 (Some 1))))"

text \<open>
  \<open>String.prototype.search\<close> gives the index of the first match or \<open>-1\<close>; the pattern
  starts with \<open>^\<close>, so a match is at index 0. The constructor tests
  \<open>if (issuer.search(originRegex))\<close>, which is taken when the result is not 0.
\<close>

definition js_search :: "jsstring \<Rightarrow> rexp \<Rightarrow> int" where
  "js_search s r = (if regex_matches r s then 0 else - 1)"

subsection \<open>The language of a pattern, and the grammar in the specification's words\<close>

definition conc :: "'a list set \<Rightarrow> 'a list set \<Rightarrow> 'a list set" where
  "conc A B = {a @ b | a b. a \<in> A \<and> b \<in> B}"

fun lpow :: "'a list set \<Rightarrow> nat \<Rightarrow> 'a list set" where
  "lpow L 0 = {[]}"
| "lpow L (Suc n) = conc L (lpow L n)"

fun lang :: "rexp \<Rightarrow> jsstring set" where
  "lang Zero = {}"
| "lang One = {[]}"
| "lang (Cls rs) = {[c] | c. in_cls c rs}"
| "lang (Alt a b) = lang a \<union> lang b"
| "lang (Times a b) = conc (lang a) (lang b)"
| "lang (Rep r lo hi) = (\<Union>n \<in> {n. in_range lo hi n}. lpow (lang r) n)"

definition Deriv :: "'a \<Rightarrow> 'a list set \<Rightarrow> 'a list set" where
  "Deriv c L = {w. c # w \<in> L}"

definition is_lower :: "jschar \<Rightarrow> bool" where
  "is_lower c \<longleftrightarrow> 0x61 \<le> c \<and> c \<le> 0x7A"

definition is_digit :: "jschar \<Rightarrow> bool" where
  "is_digit c \<longleftrightarrow> 0x30 \<le> c \<and> c \<le> 0x39"

definition is_label_char :: "jschar \<Rightarrow> bool" where
  "is_label_char c \<longleftrightarrow> is_lower c \<or> is_digit c \<or> c = 0x2D"

text \<open>
  The grammar as the specification words it: the literal \<open>https://\<close>, one or more DNS
  labels of 1 to 63 characters from \<open>[a-z0-9-]\<close>, each followed by a dot, a top-level
  domain of 2 to 63 characters from \<open>[a-z]\<close>, an optional \<open>:PORT\<close> of one or more
  digits, and nothing after it.
\<close>

definition spec_origin_grammar :: "jsstring \<Rightarrow> bool" where
  "spec_origin_grammar s \<longleftrightarrow>
     (\<exists>labels tld port.
        s = js_str ''https://'' @ concat (map (\<lambda>l. l @ js_str ''.'') labels) @ tld @ port
      \<and> labels \<noteq> []
      \<and> (\<forall>l\<in>set labels. 1 \<le> length l \<and> length l \<le> 63 \<and> (\<forall>c\<in>set l. is_label_char c))
      \<and> 2 \<le> length tld \<and> length tld \<le> 63 \<and> (\<forall>c\<in>set tld. is_lower c)
      \<and> (port = [] \<or> (\<exists>ds. port = js_str '':'' @ ds \<and> ds \<noteq> [] \<and> (\<forall>c\<in>set ds. is_digit c))))"

definition label_dot_lang :: "jsstring set" where
  "label_dot_lang =
     {l @ [0x2E] | l. 1 \<le> length l \<and> length l \<le> 63 \<and> (\<forall>c\<in>set l. is_label_char c)}"

section \<open>The Node SDK: values, errors and the platform\<close>

text \<open>
  What a JavaScript function throws: a \<open>RangeError\<close> (a \<open>Buffer\<close> read or write out of
  range), a \<open>TypeError\<close> (a call of a method the value does not have), or
  \<open>new Error(message)\<close>.
\<close>

datatype js_error = RangeError | TypeError | Error string

definition ebind :: "'e + 'a \<Rightarrow> ('a \<Rightarrow> 'e + 'b) \<Rightarrow> 'e + 'b" where
  "ebind m f = (case m of Inl e \<Rightarrow> Inl e | Inr x \<Rightarrow> f x)"

text \<open>
  The values stored in the object that \<open>deserialize\<close> returns, and the object itself:
  a map from property names to values. Reading a property the object does not have
  gives \<open>undefined\<close>.
\<close>

datatype jsval = JSUndefined | JSNumber nat | JSString jsstring | JSBuffer "byte list"

type_synonym jsobject = "string \<rightharpoonup> jsval"

definition js_get :: "jsobject \<Rightarrow> string \<Rightarrow> jsval" where
  "js_get obj name = (case obj name of None \<Rightarrow> JSUndefined | Some v \<Rightarrow> v)"

text \<open>
  The argument \<open>serialized\<close> of \<open>deserialize\<close>, \<open>isSignatureValid\<close> and \<open>fromSerialized\<close>:
  a \<open>Buffer\<close>, a string primitive, or a boxed \<open>String\<close> object (\<open>new String(...)\<close>).
  \<open>x instanceof String\<close> holds only for the boxed object.
\<close>

datatype js_input = BufferArg "byte list" | StringPrim jsstring | StringObject jsstring

text \<open>A JavaScript number, as far as the clock-skew test needs it: \<open>NaN\<close> or an
  integer (times are whole milliseconds).\<close>

datatype jsnum = NaN | Num int

text \<open>
  The platform functions the SDK calls, which are not part of the repository: base64
  (\<open>new Buffer(s, 'base64')\<close>, \<open>buf.toString('base64')\<close>), the UTF-8 encoding that
  \<open>crypto\<close> applies to a string argument, signing
  (\<open>createSign('sha256').update(raw).sign(pem)\<close>), verification
  (\<open>createVerify('sha256').update(raw).verify(pem, sig)\<close>, which returns a boolean or
  throws), the clock (\<open>new Date().toISOString()\<close>, and \<open>new Date()\<close> as milliseconds
  since the epoch) and the parser of \<open>new Date(string)\<close> (\<open>NaN\<close> for an invalid date).
\<close>

record node_env =
  base64_decode :: "jsstring \<Rightarrow> byte list"
  base64_encode :: "byte list \<Rightarrow> jsstring"
  utf8_encode :: "jsstring \<Rightarrow> byte list"
  crypto_sign :: "jsstring \<Rightarrow> byte list \<Rightarrow> js_error + byte list"
  crypto_verify :: "jsstring \<Rightarrow> byte list \<Rightarrow> byte list \<Rightarrow> js_error + bool"
  now_toISOString :: jsstring
  Date_now :: int
  Date_parse :: "jsstring \<Rightarrow> jsnum"

subsection \<open>Buffer operations\<close>

text \<open>\<open>buf.readUInt8(offset)\<close> and \<open>buf.readUInt16BE(offset)\<close> throw a \<open>RangeError\<close> when
  the read would pass the end of the buffer.\<close>

definition readUInt8 :: "byte list \<Rightarrow> nat \<Rightarrow> js_error + nat" where
  "readUInt8 buf offset =
     (if offset + 1 \<le> length buf then Inr (unat (buf ! offset)) else Inl RangeError)"

definition readUInt16BE :: "byte list \<Rightarrow> nat \<Rightarrow> js_error + nat" where
  "readUInt16BE buf offset =
     (if offset + 2 \<le> length buf
      then Inr (256 * unat (buf ! offset) + unat (buf ! (offset + 1)))
      else Inl RangeError)"

text \<open>\<open>buf.slice(start, end)\<close> with non-negative indices never throws: both indices are
  clamped to the length of the buffer, and the result is empty when \<open>start\<close> is not
  below \<open>end\<close>.\<close>

definition buf_slice :: "'a list \<Rightarrow> nat \<Rightarrow> nat \<Rightarrow> 'a list" where
  "buf_slice buf start fin = drop start (take fin buf)"

text \<open>\<open>buf.toString('ascii')\<close> clears the highest bit of each byte;
  \<open>new Buffer(s, 'ascii')\<close> keeps the low byte of each code unit.\<close>

definition toString_ascii :: "byte list \<Rightarrow> jsstring" where
  "toString_ascii buf = map (\<lambda>b. ucast (b AND 0x7F)) buf"

definition Buffer_from_ascii :: "jsstring \<Rightarrow> byte list" where
  "Buffer_from_ascii s = map ucast s"

text \<open>\<open>new Buffer(size)\<close>: a buffer of that many bytes, here zeros; the constructor
  overwrites all of them.\<close>

definition new_Buffer :: "nat \<Rightarrow> byte list" where
  "new_Buffer n = replicate n 0"

text \<open>
  A write of the bytes \<open>src\<close> into \<open>target\<close> from \<open>offset\<close> on. \<open>src.copy(target, offset)\<close>
  copies what fits; \<open>writeUInt8\<close> and \<open>writeUInt16BE\<close> throw a \<open>RangeError\<close> when the
  value or the offset is out of range.
\<close>

definition buf_write :: "byte list \<Rightarrow> nat \<Rightarrow> byte list \<Rightarrow> byte list" where
  "buf_write target offset src =
     take offset target @ take (length target - offset) src @ drop (offset + length src) target"

definition buf_copy :: "byte list \<Rightarrow> byte list \<Rightarrow> nat \<Rightarrow> byte list" where
  "buf_copy src target offset = buf_write target offset src"

definition writeUInt8 :: "byte list \<Rightarrow> nat \<Rightarrow> nat \<Rightarrow> js_error + byte list" where
  "writeUInt8 target v offset =
     (if v \<le> 255 \<and> offset + 1 \<le> length target
      then Inr (buf_write target offset [of_nat v]) else Inl RangeError)"

definition writeUInt16BE :: "byte list \<Rightarrow> nat \<Rightarrow> nat \<Rightarrow> js_error + byte list" where
  "writeUInt16BE target v offset =
     (if v \<le> 65535 \<and> offset + 2 \<le> length target
      then Inr (buf_write target offset [of_nat (v div 256), of_nat (v mod 256)])
      else Inl RangeError)"

subsection \<open>PEM wrapping\<close>

text \<open>\<open>toPEM(inKey, typeStr)\<close>: the key's characters with a line feed after every 64th,
  between the \<open>BEGIN\<close> and \<open>END\<close> lines.\<close>

fun pem_lines :: "nat \<Rightarrow> jsstring \<Rightarrow> jsstring" where
  "pem_lines i [] = []"
| "pem_lines i (c # cs) =
     (if (i + 1) mod 64 = 0 then c # 0x0A # pem_lines (i + 1) cs else c # pem_lines (i + 1) cs)"

definition toPEM :: "jsstring \<Rightarrow> jsstring \<Rightarrow> jsstring" where
  "toPEM inKey typeStr =
     js_str ''-----BEGIN '' @ typeStr @ js_str ''-----'' @ [0x0A] @ pem_lines 0 inKey
     @ [0x0A] @ js_str ''-----END '' @ typeStr @ js_str ''-----'' @ [0x0A]"

definition ecPrivateKeyToPEM :: "jsstring \<Rightarrow> jsstring" where
  "ecPrivateKeyToPEM inKey = toPEM inKey (js_str ''EC PRIVATE KEY'')"

definition publicKeyToPEM :: "jsstring \<Rightarrow> jsstring" where
  "publicKeyToPEM inKey = toPEM inKey (js_str ''PUBLIC KEY'')"

section \<open>The Node SDK: \<open>RecoveryToken\<close>\<close>

record js_token =
  tok_version :: nat
  tok_type :: nat
  tok_id :: "byte list"
  tok_options :: nat
  tok_issuer :: jsstring
  tok_audience :: jsstring
  tok_data :: "byte list"
  tok_binding :: "byte list"
  tok_issuedTime :: jsstring
  tok_raw :: "byte list"
  tok_signature :: "byte list"
  tok_encoded :: jsstring

text \<open>
  \<open>constructor(privateKey, id, options, issuer, audience, issuedTime, data, binding,
  signature = null)\<close>. \<open>privateKey\<close> and \<open>signature\<close> may be \<open>null\<close> (\<open>None\<close>). The
  arguments have the types the documentation gives them, so the \<open>typeof\<close> and
  \<open>instanceof Buffer\<close> tests pass; \<open>id\<close>, \<open>data\<close> and \<open>binding\<close> are buffers, which are
  truthy, and \<open>options || 0\<close> is \<open>options\<close>. An empty \<open>issuedTime\<close> is falsy and is
  replaced by the current time. \<open>new Buffer(tokenLength)\<close> is filled by the writes that
  follow. With no private key the signature is the argument, and
  \<open>Buffer.concat([raw, null])\<close> throws a \<open>TypeError\<close>.
\<close>

definition RecoveryToken_new ::
  "node_env \<Rightarrow> jsstring option \<Rightarrow> byte list \<Rightarrow> nat \<Rightarrow> jsstring \<Rightarrow> jsstring \<Rightarrow> jsstring
   \<Rightarrow> byte list \<Rightarrow> byte list \<Rightarrow> byte list option \<Rightarrow> js_error + js_token" where
  "RecoveryToken_new env privateKey token_id options issuer audience issuedTime data binding signature =
     (if js_search issuer originRegex \<noteq> 0 then Inl (Error ''malformed issuer'')
      else if js_search audience originRegex \<noteq> 0 then Inl (Error ''malformed audience'')
      else if length token_id \<noteq> 16 then Inl (Error ''malformed id'')
      else
        let this_issuedTime = (if issuedTime = [] then now_toISOString env else issuedTime);
            issuerBuf = Buffer_from_ascii issuer;
            audienceBuf = Buffer_from_ascii audience;
            issuedTimeBuf = Buffer_from_ascii this_issuedTime;
            tokenLength = 1 + 1 + 16 + 1 + 2 + length issuer + 2 + length audience
              + 2 + length this_issuedTime + 2 + length data + 2 + length binding;
            raw = new_Buffer tokenLength;
            offset = 0
        in
        ebind (writeUInt8 raw 0 offset) (\<lambda>raw.
        let offset = offset + 1 in
        ebind (writeUInt8 raw 0 offset) (\<lambda>raw.
        let offset = offset + 1;
            raw = buf_copy token_id raw offset;
            offset = offset + 16 in
        ebind (writeUInt8 raw options offset) (\<lambda>raw.
        let offset = offset + 1 in
        ebind (writeUInt16BE raw (length issuerBuf) offset) (\<lambda>raw.
        let offset = offset + 2;
            raw = buf_copy issuerBuf raw offset;
            offset = offset + length issuerBuf in
        ebind (writeUInt16BE raw (length audienceBuf) offset) (\<lambda>raw.
        let offset = offset + 2;
            raw = buf_copy audienceBuf raw offset;
            offset = offset + length audienceBuf in
        ebind (writeUInt16BE raw (length issuedTimeBuf) offset) (\<lambda>raw.
        let offset = offset + 2;
            raw = buf_copy issuedTimeBuf raw offset;
            offset = offset + length issuedTimeBuf in
        ebind (writeUInt16BE raw (length data) offset) (\<lambda>raw.
        let offset = offset + 2;
            raw = buf_copy data raw offset;
            offset = offset + length data in
        ebind (writeUInt16BE raw (length binding) offset) (\<lambda>raw.
        let offset = offset + 2;
            raw = buf_copy binding raw offset in
        ebind (case privateKey of
                 None \<Rightarrow> (case signature of None \<Rightarrow> Inl TypeError | Some s \<Rightarrow> Inr s)
               | Some key \<Rightarrow> crypto_sign env (ecPrivateKeyToPEM key) raw) (\<lambda>this_signature.
        Inr \<lparr>tok_version = 0, tok_type = 0, tok_id = token_id, tok_options = options,
             tok_issuer = issuer, tok_audience = audience, tok_data = data,
             tok_binding = binding, tok_issuedTime = this_issuedTime, tok_raw = raw,
             tok_signature = this_signature,
             tok_encoded = base64_encode env (raw @ this_signature)\<rparr>))))))))))"

text \<open>
  \<open>static deserialize(serialized)\<close> on a buffer: the reads in the order of the source,
  with \<open>offset\<close> advanced between them, and the object it returns.
\<close>

definition deserialize_buffer :: "node_env \<Rightarrow> byte list \<Rightarrow> js_error + jsobject" where
  "deserialize_buffer env serialized =
     (let offset = 0 in
      ebind (readUInt8 serialized offset) (\<lambda>version.
      let offset = offset + 1 in
      ebind (readUInt8 serialized offset) (\<lambda>ttype.
      let offset = offset + 1;
          token_id = buf_slice serialized offset (offset + 16);
          offset = offset + 16 in
      ebind (readUInt8 serialized offset) (\<lambda>options.
      let offset = offset + 1 in
      ebind (readUInt16BE serialized offset) (\<lambda>issuerLength.
      let offset = offset + 2;
          issuer = toString_ascii (buf_slice serialized offset (offset + issuerLength));
          offset = offset + issuerLength in
      ebind (readUInt16BE serialized offset) (\<lambda>audienceLength.
      let offset = offset + 2;
          audience = toString_ascii (buf_slice serialized offset (offset + audienceLength));
          offset = offset + audienceLength in
      ebind (readUInt16BE serialized offset) (\<lambda>issuedTimeLength.
      let offset = offset + 2;
          issuedTime = toString_ascii (buf_slice serialized offset (offset + issuedTimeLength));
          offset = offset + issuedTimeLength in
      ebind (readUInt16BE serialized offset) (\<lambda>dataLength.
      let offset = offset + 2;
          data = buf_slice serialized offset (offset + dataLength);
          offset = offset + dataLength in
      ebind (readUInt16BE serialized offset) (\<lambda>bindingLength.
      let offset = offset + 2;
          binding = buf_slice serialized offset (offset + bindingLength);
          offset = offset + bindingLength in
      Inr [''version'' \<mapsto> JSNumber version,
           ''type'' \<mapsto> JSNumber ttype,
           ''id'' \<mapsto> JSBuffer token_id,
           ''options'' \<mapsto> JSNumber options,
           ''issuer'' \<mapsto> JSString issuer,
           ''audience'' \<mapsto> JSString audience,
           ''issuedTime'' \<mapsto> JSString issuedTime,
           ''data'' \<mapsto> JSBuffer data,
           ''binding'' \<mapsto> JSBuffer binding,
           ''raw'' \<mapsto> JSBuffer (buf_slice serialized 0 offset),
           ''signatureIndex'' \<mapsto> JSNumber offset,
           ''signature'' \<mapsto> JSBuffer (buf_slice serialized offset (length serialized)),
           ''encoded'' \<mapsto> JSString (base64_encode env serialized)])))))))))"

text \<open>
  \<open>static deserialize(serialized)\<close>. The test \<open>serialized instanceof String\<close> holds
  for a boxed string only, which is then decoded. A string primitive stays as it is,
  and \<open>serialized.readUInt8(offset)\<close>, the first statement that uses it, calls a method
  that strings do not have: a \<open>TypeError\<close>.
\<close>

definition deserialize :: "node_env \<Rightarrow> js_input \<Rightarrow> js_error + jsobject" where
  "deserialize env serialized =
     (case serialized of
        StringObject s \<Rightarrow> deserialize_buffer env (base64_decode env s)
      | BufferArg b \<Rightarrow> deserialize_buffer env b
      | StringPrim s \<Rightarrow> Inl TypeError)"

text \<open>The properties that \<open>deserialize\<close> sets, read back at their types.\<close>

definition as_number :: "jsval \<Rightarrow> nat" where
  "as_number v = (case v of JSNumber n \<Rightarrow> n | _ \<Rightarrow> 0)"

definition as_string :: "jsval \<Rightarrow> jsstring" where
  "as_string v = (case v of JSString s \<Rightarrow> s | _ \<Rightarrow> [])"

definition as_buffer :: "jsval \<Rightarrow> byte list" where
  "as_buffer v = (case v of JSBuffer b \<Rightarrow> b | _ \<Rightarrow> [])"

text \<open>\<open>static fromSerialized(serialized)\<close> of \<open>RecoveryToken\<close>.\<close>

definition RecoveryToken_fromSerialized :: "node_env \<Rightarrow> js_input \<Rightarrow> js_error + js_token" where
  "RecoveryToken_fromSerialized env serialized =
     ebind (deserialize env serialized) (\<lambda>fields.
       if js_get fields ''version'' \<noteq> JSNumber 0 then Inl (Error ''incorrect version'')
       else if js_get fields ''type'' \<noteq> JSNumber 0 then Inl (Error ''incorrect type'')
       else RecoveryToken_new env None
              (as_buffer (js_get fields ''id''))
              (as_number (js_get fields ''options''))
              (as_string (js_get fields ''issuer''))
              (as_string (js_get fields ''audience''))
              (as_string (js_get fields ''issuedTime''))
              (as_buffer (js_get fields ''data''))
              (as_buffer (js_get fields ''binding''))
              (Some (as_buffer (js_get fields ''signature''))))"

subsection \<open>\<open>isSignatureValid\<close>\<close>

text \<open>
  \<open>x.slice(start, end)\<close> of a buffer or a string with arguments that may be
  \<open>undefined\<close>: an undefined \<open>start\<close> is 0 and an undefined (or omitted) \<open>end\<close> is the
  length. The only values that reach it are numbers and \<open>undefined\<close>; any other value
  would convert to \<open>NaN\<close>, which is index 0.
\<close>

definition slice_start :: "jsval \<Rightarrow> nat" where
  "slice_start v = (case v of JSNumber n \<Rightarrow> n | _ \<Rightarrow> 0)"

definition slice_end :: "nat \<Rightarrow> jsval \<Rightarrow> nat" where
  "slice_end len v = (case v of JSUndefined \<Rightarrow> len | JSNumber n \<Rightarrow> n | _ \<Rightarrow> 0)"

definition js_slice :: "'a list \<Rightarrow> jsval \<Rightarrow> jsval \<Rightarrow> 'a list" where
  "js_slice xs start fin = buf_slice xs (slice_start start) (slice_end (length xs) fin)"

text \<open>The loop over \<open>keys\<close>: it returns \<open>true\<close> at the first key whose verification
  returns \<open>true\<close>; nothing catches what \<open>verify\<close> throws.\<close>

fun verify_loop :: "node_env \<Rightarrow> byte list \<Rightarrow> byte list \<Rightarrow> jsstring list \<Rightarrow> js_error + bool" where
  "verify_loop env raw sig [] = Inr False"
| "verify_loop env raw sig (k # ks) =
     (case crypto_verify env (publicKeyToPEM k) raw sig of
        Inl e \<Rightarrow> Inl e
      | Inr ok \<Rightarrow> if ok then Inr True else verify_loop env raw sig ks)"

text \<open>
  \<open>static isSignatureValid(serialized, keys, signatureOffset = null)\<close>. With the
  offset omitted it is read from the property \<open>signatureOffset\<close> of the object that
  \<open>deserialize\<close> returns. A string primitive is not decoded; with an offset given,
  \<open>slice\<close> is the string's own and \<open>crypto\<close> encodes the two strings as UTF-8.
\<close>

definition isSignatureValid ::
  "node_env \<Rightarrow> js_input \<Rightarrow> jsstring list \<Rightarrow> nat option \<Rightarrow> js_error + bool" where
  "isSignatureValid env serialized keys signatureOffset =
     (let serialized = (case serialized of
                          StringObject s \<Rightarrow> BufferArg (base64_decode env s)
                        | _ \<Rightarrow> serialized) in
      ebind (case signatureOffset of
               None \<Rightarrow> ebind (deserialize env serialized)
                         (\<lambda>fields. Inr (js_get fields ''signatureOffset''))
             | Some n \<Rightarrow> Inr (JSNumber n)) (\<lambda>signatureOffset.
      case serialized of
        BufferArg b \<Rightarrow>
          verify_loop env (js_slice b (JSNumber 0) signatureOffset)
            (js_slice b signatureOffset JSUndefined) keys
      | StringPrim s \<Rightarrow>
          verify_loop env (utf8_encode env (js_slice s (JSNumber 0) signatureOffset))
            (utf8_encode env (js_slice s signatureOffset JSUndefined)) keys
      | StringObject s \<Rightarrow>
          verify_loop env (js_slice (base64_decode env s) (JSNumber 0) signatureOffset)
            (js_slice (base64_decode env s) signatureOffset JSUndefined) keys))"

section \<open>The Node SDK: \<open>CountersignedToken\<close>\<close>

text \<open>\<open>constructor(id, options, issuer, audience, issuedTime, data, binding, signature)\<close>:
  the constructor of \<open>RecoveryToken\<close> with no private key, then \<open>this.type\<close> is set.\<close>

definition CountersignedToken_new ::
  "node_env \<Rightarrow> byte list \<Rightarrow> nat \<Rightarrow> jsstring \<Rightarrow> jsstring \<Rightarrow> jsstring
   \<Rightarrow> byte list \<Rightarrow> byte list \<Rightarrow> byte list \<Rightarrow> js_error + js_token" where
  "CountersignedToken_new env token_id options issuer audience issuedTime data binding signature =
     ebind (RecoveryToken_new env None token_id options issuer audience issuedTime data binding
              (Some signature))
       (\<lambda>this. Inr (this\<lparr>tok_type := 1\<rparr>))"

subsection \<open>The clock-skew test\<close>

text \<open>
  A \<open>Date\<close> object keeps its time in an internal slot, which \<open>getTime()\<close> and
  \<open>valueOf()\<close> read. As an object it has no data property of its own, and
  \<open>Date.prototype\<close> has no property named \<open>value\<close>.
\<close>

record js_date =
  time_value :: jsnum

definition new_Date_of :: "node_env \<Rightarrow> jsstring \<Rightarrow> js_date" where
  "new_Date_of env s = \<lparr>time_value = Date_parse env s\<rparr>"

definition new_Date :: "node_env \<Rightarrow> js_date" where
  "new_Date env = \<lparr>time_value = Num (Date_now env)\<rparr>"

definition Date_properties :: "js_date \<Rightarrow> jsobject" where
  "Date_properties d = Map.empty"

text \<open>\<open>ToNumber\<close> on the values that reach the subtraction (\<open>undefined\<close> is \<open>NaN\<close>), the
  operators \<open>-\<close> and \<open>>\<close>, and \<open>Math.abs\<close>: an operation on \<open>NaN\<close> is \<open>NaN\<close>, and a
  comparison with \<open>NaN\<close> is false.\<close>

definition js_to_number :: "jsval \<Rightarrow> jsnum" where
  "js_to_number v = (case v of JSNumber n \<Rightarrow> Num (int n) | _ \<Rightarrow> NaN)"

definition js_minus :: "jsnum \<Rightarrow> jsnum \<Rightarrow> jsnum" where
  "js_minus a b = (case (a, b) of (Num x, Num y) \<Rightarrow> Num (x - y) | _ \<Rightarrow> NaN)"

definition Math_abs :: "jsnum \<Rightarrow> jsnum" where
  "Math_abs a = (case a of Num x \<Rightarrow> Num \<bar>x\<bar> | NaN \<Rightarrow> NaN)"

definition js_greater :: "jsnum \<Rightarrow> jsnum \<Rightarrow> bool" where
  "js_greater a b = (case (a, b) of (Num x, Num y) \<Rightarrow> x > y | _ \<Rightarrow> False)"

text \<open>
  \<open>let issuedTime = new Date(fields.issuedTime);\<close>
  \<open>if (Math.abs(issuedTime.value - new Date().value) > (allowedClockSkew * 1000))\<close>
\<close>

definition clock_skew_exceeded :: "node_env \<Rightarrow> jsstring \<Rightarrow> int \<Rightarrow> bool" where
  "clock_skew_exceeded env fields_issuedTime allowedClockSkew =
     (let issuedTime = new_Date_of env fields_issuedTime in
      js_greater
        (Math_abs (js_minus (js_to_number (js_get (Date_properties issuedTime) ''value''))
                            (js_to_number (js_get (Date_properties (new_Date env)) ''value''))))
        (Num (allowedClockSkew * 1000)))"

subsection \<open>\<open>CountersignedToken.fromSerialized\<close>\<close>

text \<open>
  \<open>static fromSerialized(serialized, issuer, audience, allowedClockSkew, binding,
  publicKeys)\<close>, statement by statement.
\<close>

definition CountersignedToken_fromSerialized ::
  "node_env \<Rightarrow> js_input \<Rightarrow> jsstring \<Rightarrow> jsstring \<Rightarrow> int \<Rightarrow> byte list \<Rightarrow> jsstring list
   \<Rightarrow> js_error + js_token" where
  "CountersignedToken_fromSerialized env serialized issuer audience allowedClockSkew binding publicKeys =
     ebind (deserialize env serialized) (\<lambda>fields.
       if js_get fields ''version'' \<noteq> JSNumber 0 then Inl (Error ''incorrect version'')
       else if js_get fields ''type'' \<noteq> JSNumber 1 then Inl (Error ''incorrect type'')
       else if js_get fields ''issuer'' \<noteq> JSString issuer then Inl (Error ''incorrect issuer'')
       else if js_get fields ''audience'' \<noteq> JSString audience
         then Inl (Error ''incorrect audience'')
       else if as_buffer (js_get fields ''binding'') \<noteq> binding
         then Inl (Error ''incorrect token binding'')
       else if clock_skew_exceeded env (as_string (js_get fields ''issuedTime'')) allowedClockSkew
         then Inl (Error ''token issued outside allowed clock skew'')
       else
         ebind (CountersignedToken_new env
                  (as_buffer (js_get fields ''id''))
                  (as_number (js_get fields ''options''))
                  (as_string (js_get fields ''issuer''))
                  (as_string (js_get fields ''audience''))
                  (as_string (js_get fields ''issuedTime''))
                  (as_buffer (js_get fields ''data''))
                  (as_buffer (js_get fields ''binding''))
                  (as_buffer (js_get fields ''signature''))) (\<lambda>token.
         ebind (isSignatureValid env serialized publicKeys
                  (Some (as_number (js_get fields ''signatureIndex'')))) (\<lambda>valid.
         if \<not> valid then Inl (Error ''invalid countersigned token signature'')
         else Inr token)))"

subsection \<open>The serialization layout of the specification\<close>

text \<open>The two bytes of a length field, high byte first, and the layout of section 4.C
  of the specification up to the signature.\<close>

definition uint16BE :: "nat \<Rightarrow> byte list" where
  "uint16BE n = [of_nat (n div 256), of_nat (n mod 256)]"

definition spec_layout ::
  "nat \<Rightarrow> nat \<Rightarrow> byte list \<Rightarrow> nat \<Rightarrow> byte list \<Rightarrow> byte list \<Rightarrow> byte list \<Rightarrow> byte list
   \<Rightarrow> byte list \<Rightarrow> byte list" where
  "spec_layout version ttype token_id options issuer audience issuedTime data binding =
     [of_nat version, of_nat ttype] @ token_id @ [of_nat options]
     @ uint16BE (length issuer) @ issuer
     @ uint16BE (length audience) @ audience
     @ uint16BE (length issuedTime) @ issuedTime
     @ uint16BE (length data) @ data
     @ uint16BE (length binding) @ binding"

text \<open>The issued time the constructor stores: \<open>issuedTime || new Date().toISOString()\<close>.\<close>

definition effective_issuedTime :: "node_env \<Rightarrow> jsstring \<Rightarrow> jsstring" where
  "effective_issuedTime env issuedTime =
     (if issuedTime = [] then now_toISOString env else issuedTime)"

section \<open>The platform calls of a validation\<close>

text \<open>
  The order in which a validator consults the platform. A run is the list of the calls
  to the clock (\<open>new Date()\<close> in Node, \<open>new Date().getTime()\<close> in Java), to the date
  parser (\<open>new Date(string)\<close>, \<open>DelegatedRecoveryUtils.fromISO8601\<close>) and to the
  signature verifier (\<open>verify.verify\<close>, \<open>Signature.verify\<close>, with its key), in the
  order of execution, together with what the function returns or throws. A statement
  that throws ends the run; the other platform calls (base64, buffers) are not listed.
\<close>

datatype 'k platform_call = CallDateParse jsstring | CallClock | CallVerify 'k

type_synonym ('k, 'e, 'a) run = "'k platform_call list \<times> ('e + 'a)"

definition run_return :: "'a \<Rightarrow> ('k, 'e, 'a) run" where
  "run_return x = ([], Inr x)"

definition run_throw :: "'e \<Rightarrow> ('k, 'e, 'a) run" where
  "run_throw e = ([], Inl e)"

text \<open>A computation that makes none of the listed calls.\<close>

definition run_pure :: "'e + 'a \<Rightarrow> ('k, 'e, 'a) run" where
  "run_pure m = ([], m)"

text \<open>Sequencing: the calls of the first computation, then, unless it throws, those of
  the second.\<close>

definition run_bind :: "('k, 'e, 'a) run \<Rightarrow> ('a \<Rightarrow> ('k, 'e, 'b) run) \<Rightarrow> ('k, 'e, 'b) run" where
  "run_bind m f =
     (case snd m of
        Inl e \<Rightarrow> (fst m, Inl e)
      | Inr x \<Rightarrow> apfst ((@) (fst m)) (f x))"

subsection \<open>The Node SDK\<close>

text \<open>\<open>new Date(s)\<close>, \<open>new Date()\<close>, \<open>new Date().toISOString()\<close> and
  \<open>verify.verify(pem, sig)\<close> as calls.\<close>

definition new_Date_of_run :: "node_env \<Rightarrow> jsstring \<Rightarrow> (jsstring, js_error, js_date) run" where
  "new_Date_of_run env s = ([CallDateParse s], Inr (new_Date_of env s))"

definition new_Date_run :: "node_env \<Rightarrow> (jsstring, js_error, js_date) run" where
  "new_Date_run env = ([CallClock], Inr (new_Date env))"

definition now_toISOString_run :: "node_env \<Rightarrow> (jsstring, js_error, jsstring) run" where
  "now_toISOString_run env = ([CallClock], Inr (now_toISOString env))"

definition crypto_verify_run ::
  "node_env \<Rightarrow> jsstring \<Rightarrow> byte list \<Rightarrow> byte list \<Rightarrow> (jsstring, js_error, bool) run" where
  "crypto_verify_run env pem raw sig = ([CallVerify pem], crypto_verify env pem raw sig)"

text \<open>
  \<open>let issuedTime = new Date(fields.issuedTime);\<close>
  \<open>if (Math.abs(issuedTime.value - new Date().value) > (allowedClockSkew * 1000))\<close>
\<close>

definition clock_skew_exceeded_run ::
  "node_env \<Rightarrow> jsstring \<Rightarrow> int \<Rightarrow> (jsstring, js_error, bool) run" where
  "clock_skew_exceeded_run env fields_issuedTime allowedClockSkew =
     run_bind (new_Date_of_run env fields_issuedTime) (\<lambda>issuedTime.
     run_bind (new_Date_run env) (\<lambda>now.
     run_return
       (js_greater
          (Math_abs (js_minus (js_to_number (js_get (Date_properties issuedTime) ''value''))
                              (js_to_number (js_get (Date_properties now) ''value''))))
          (Num (allowedClockSkew * 1000)))))"

text \<open>
  The constructor of \<open>CountersignedToken\<close>: the tests of issuer, audience and id come
  first; then \<open>this.issuedTime = issuedTime || new Date().toISOString()\<close> reads the
  clock when the issued time is the empty string; the rest makes no listed call (no
  private key is given).
\<close>

definition CountersignedToken_new_run ::
  "node_env \<Rightarrow> byte list \<Rightarrow> nat \<Rightarrow> jsstring \<Rightarrow> jsstring \<Rightarrow> jsstring
   \<Rightarrow> byte list \<Rightarrow> byte list \<Rightarrow> byte list \<Rightarrow> (jsstring, js_error, js_token) run" where
  "CountersignedToken_new_run env token_id options issuer audience issuedTime data binding signature =
     (if js_search issuer originRegex \<noteq> 0 \<or> js_search audience originRegex \<noteq> 0
         \<or> length token_id \<noteq> 16
      then run_pure (CountersignedToken_new env token_id options issuer audience issuedTime
                       data binding signature)
      else
        run_bind (if issuedTime = [] then now_toISOString_run env else run_return issuedTime)
          (\<lambda>this_issuedTime.
        run_pure (CountersignedToken_new env token_id options issuer audience this_issuedTime
                    data binding signature)))"

text \<open>The loop of \<open>isSignatureValid\<close>, and \<open>isSignatureValid\<close>.\<close>

fun verify_loop_run ::
  "node_env \<Rightarrow> byte list \<Rightarrow> byte list \<Rightarrow> jsstring list \<Rightarrow> (jsstring, js_error, bool) run" where
  "verify_loop_run env raw sig [] = run_return False"
| "verify_loop_run env raw sig (k # ks) =
     run_bind (crypto_verify_run env (publicKeyToPEM k) raw sig) (\<lambda>ok.
     if ok then run_return True else verify_loop_run env raw sig ks)"

definition isSignatureValid_run ::
  "node_env \<Rightarrow> js_input \<Rightarrow> jsstring list \<Rightarrow> nat option \<Rightarrow> (jsstring, js_error, bool) run" where
  "isSignatureValid_run env serialized keys signatureOffset =
     (let serialized = (case serialized of
                          StringObject s \<Rightarrow> BufferArg (base64_decode env s)
                        | _ \<Rightarrow> serialized) in
      run_bind (run_pure
                 (case signatureOffset of
                    None \<Rightarrow> ebind (deserialize env serialized)
                              (\<lambda>fields. Inr (js_get fields ''signatureOffset''))
                  | Some n \<Rightarrow> Inr (JSNumber n))) (\<lambda>signatureOffset.
      case serialized of
        BufferArg b \<Rightarrow>
          verify_loop_run env (js_slice b (JSNumber 0) signatureOffset)
            (js_slice b signatureOffset JSUndefined) keys
      | StringPrim s \<Rightarrow>
          verify_loop_run env (utf8_encode env (js_slice s (JSNumber 0) signatureOffset))
            (utf8_encode env (js_slice s signatureOffset JSUndefined)) keys
      | StringObject s \<Rightarrow>
          verify_loop_run env (js_slice (base64_decode env s) (JSNumber 0) signatureOffset)
            (js_slice (base64_decode env s) signatureOffset JSUndefined) keys))"

text \<open>\<open>CountersignedToken.fromSerialized\<close>, statement by statement.\<close>

definition CountersignedToken_fromSerialized_run ::
  "node_env \<Rightarrow> js_input \<Rightarrow> jsstring \<Rightarrow> jsstring \<Rightarrow> int \<Rightarrow> byte list \<Rightarrow> jsstring list
   \<Rightarrow> (jsstring, js_error, js_token) run" where
  "CountersignedToken_fromSerialized_run env serialized issuer audience allowedClockSkew binding publicKeys =
     run_bind (run_pure (deserialize env serialized)) (\<lambda>fields.
       if js_get fields ''version'' \<noteq> JSNumber 0 then run_throw (Error ''incorrect version'')
       else if js_get fields ''type'' \<noteq> JSNumber 1 then run_throw (Error ''incorrect type'')
       else if js_get fields ''issuer'' \<noteq> JSString issuer
         then run_throw (Error ''incorrect issuer'')
       else if js_get fields ''audience'' \<noteq> JSString audience
         then run_throw (Error ''incorrect audience'')
       else if as_buffer (js_get fields ''binding'') \<noteq> binding
         then run_throw (Error ''incorrect token binding'')
       else
         run_bind (clock_skew_exceeded_run env (as_string (js_get fields ''issuedTime''))
                     allowedClockSkew) (\<lambda>exceeded.
         if exceeded then run_throw (Error ''token issued outside allowed clock skew'')
         else
           run_bind (CountersignedToken_new_run env
                       (as_buffer (js_get fields ''id''))
                       (as_number (js_get fields ''options''))
                       (as_string (js_get fields ''issuer''))
                       (as_string (js_get fields ''audience''))
                       (as_string (js_get fields ''issuedTime''))
                       (as_buffer (js_get fields ''data''))
                       (as_buffer (js_get fields ''binding''))
                       (as_buffer (js_get fields ''signature''))) (\<lambda>token.
           run_bind (isSignatureValid_run env serialized publicKeys
                       (Some (as_number (js_get fields ''signatureIndex'')))) (\<lambda>valid.
           if \<not> valid then run_throw (Error ''invalid countersigned token signature'')
           else run_return token))))"

section \<open>The Java SDK\<close>

text \<open>The exceptions the Java SDK and the platform methods it calls throw.\<close>

datatype java_exn =
    ArrayIndexOutOfBoundsException
  | IllegalArgumentException string
  | InvalidOriginException
  | InvalidTokenException string
  | InvalidParameterException
  | NullPointerException
  | BufferOverflowException
  | SignatureException
  | InvalidKeyException

text \<open>
  The platform methods, which are not part of the repository: \<open>Base64\<close>, the
  \<open>SHA256withECDSA\<close> verifier (\<open>initVerify\<close>, \<open>update\<close>, \<open>verify\<close>: a boolean, or one of
  the exceptions that \<open>isSignatureValid\<close> declares), the ECDSA signer of
  \<open>getSignature\<close>, the clock, and \<open>SimpleDateFormat\<close> (\<open>None\<close> is a \<open>ParseException\<close>).
  A Java \<open>long\<close> is a 64-bit word and an \<open>int\<close> a 32-bit word.
\<close>

record ('k, 'p) java_env =
  jBase64_decode :: "jsstring \<Rightarrow> java_exn + byte list"
  jBase64_encode :: "byte list \<Rightarrow> jsstring"
  jSignature_verify :: "'k \<Rightarrow> byte list \<Rightarrow> byte list \<Rightarrow> java_exn + bool"
  jECDSA_sign :: "'p \<Rightarrow> byte list \<Rightarrow> byte list"
  nowISO8601 :: jsstring
  fromISO8601 :: "jsstring \<Rightarrow> 64 word option"
  jDate_getTime :: "64 word"

record java_token =
  jt_type :: byte
  jt_version :: byte
  jt_id :: "byte list"
  jt_options :: byte
  jt_issuer :: jsstring
  jt_audience :: jsstring
  jt_issuedTime :: jsstring
  jt_data :: "byte list"
  jt_binding :: "byte list"
  jt_signature :: "byte list"
  jt_decoded :: "byte list"
  jt_encoded :: jsstring

definition VERSION :: byte where "VERSION = 0x00"
definition TYPE_RECOVERY_TOKEN :: byte where "TYPE_RECOVERY_TOKEN = 0x00"
definition TYPE_COUNTERSIGNED_TOKEN :: byte where "TYPE_COUNTERSIGNED_TOKEN = 0x01"

text \<open>\<open>DelegatedRecoveryUtils.validateOrigin\<close>.\<close>

definition validateOrigin :: "jsstring \<Rightarrow> java_exn + unit" where
  "validateOrigin origin =
     (if \<not> regex_matches ORIGIN_REGEX origin then Inl InvalidOriginException else Inr ())"

subsection \<open>Array and string operations\<close>

text \<open>\<open>decoded[offset]\<close>.\<close>

definition jread :: "byte list \<Rightarrow> nat \<Rightarrow> java_exn + byte" where
  "jread decoded offset =
     (if offset < length decoded then Inr (decoded ! offset)
      else Inl ArrayIndexOutOfBoundsException)"

text \<open>\<open>decoded[offset] << 8 & 0xFF00 | decoded[offset + 1] & 0xFF\<close>: each byte is
  promoted to an \<open>int\<close> with its sign; the result is an \<open>int\<close>.\<close>

definition jread_length :: "byte list \<Rightarrow> nat \<Rightarrow> java_exn + nat" where
  "jread_length decoded offset =
     ebind (jread decoded offset) (\<lambda>hi.
     ebind (jread decoded (offset + 1)) (\<lambda>lo.
       Inr (unat ((push_bit 8 (scast hi :: 32 word) AND 0xFF00) OR (scast lo AND 0xFF)))))"

text \<open>
  \<open>Arrays.copyOfRange(original, from, to)\<close>: an \<open>IllegalArgumentException\<close> when
  \<open>from > to\<close>, an \<open>ArrayIndexOutOfBoundsException\<close> when \<open>from > original.length\<close>;
  the copy has length \<open>to - from\<close> and is padded with zeros past the end of the
  original.
\<close>

definition copyOfRange :: "byte list \<Rightarrow> nat \<Rightarrow> nat \<Rightarrow> java_exn + byte list" where
  "copyOfRange original from to =
     (if from > to then Inl (IllegalArgumentException ''from > to'')
      else if from > length original then Inl ArrayIndexOutOfBoundsException
      else Inr (take (to - from) (drop from original @ replicate (to - from) 0)))"

text \<open>\<open>new String(bytes, "US-ASCII")\<close> decodes a byte above 0x7F as U+FFFD.\<close>

definition String_US_ASCII :: "byte list \<Rightarrow> jsstring" where
  "String_US_ASCII bytes = map (\<lambda>b. if b \<le> 0x7F then ucast b else 0xFFFD) bytes"

text \<open>\<open>s.getBytes(StandardCharsets.US_ASCII)\<close> encodes a character above 0x7F as \<open>?\<close>,
  and a surrogate pair as one \<open>?\<close>.\<close>

fun getBytes_US_ASCII :: "jsstring \<Rightarrow> byte list" where
  "getBytes_US_ASCII [] = []"
| "getBytes_US_ASCII [c] = [if c \<le> 0x7F then ucast c else 0x3F]"
| "getBytes_US_ASCII (c # d # cs) =
     (if c \<le> 0x7F then ucast c # getBytes_US_ASCII (d # cs)
      else if 0xD800 \<le> c \<and> c \<le> 0xDBFF \<and> 0xDC00 \<le> d \<and> d \<le> 0xDFFF
        then 0x3F # getBytes_US_ASCII cs
      else 0x3F # getBytes_US_ASCII (d # cs))"

text \<open>\<open>putChar((char) n)\<close>: the low 16 bits of \<open>n\<close>, high byte first.\<close>

definition putChar :: "nat \<Rightarrow> byte list" where
  "putChar n = [of_nat ((n mod 65536) div 256), of_nat (n mod 256)]"

subsection \<open>\<open>RecoveryToken(String encoded)\<close>\<close>

text \<open>The assignments of the constructor, up to the sanity checks.\<close>

definition RecoveryToken_fields :: "('k, 'p) java_env \<Rightarrow> jsstring \<Rightarrow> java_exn + java_token" where
  "RecoveryToken_fields env encoded =
     ebind (jBase64_decode env encoded) (\<lambda>decoded.
     let offset = 0 in
     ebind (jread decoded offset) (\<lambda>version.
     let offset = offset + 1 in
     ebind (jread decoded offset) (\<lambda>ttype.
     let offset = offset + 1 in
     ebind (copyOfRange decoded offset (offset + 16)) (\<lambda>token_id.
     let offset = offset + 16 in
     ebind (jread decoded offset) (\<lambda>options.
     let offset = offset + 1 in
     ebind (jread_length decoded offset) (\<lambda>issuerLength.
     let offset = offset + 2 in
     ebind (copyOfRange decoded offset (offset + issuerLength)) (\<lambda>issuer.
     let offset = offset + issuerLength in
     ebind (jread_length decoded offset) (\<lambda>audienceLength.
     let offset = offset + 2 in
     ebind (copyOfRange decoded offset (offset + audienceLength)) (\<lambda>audience.
     let offset = offset + audienceLength in
     ebind (jread_length decoded offset) (\<lambda>issuedTimeLength.
     let offset = offset + 2 in
     ebind (copyOfRange decoded offset (offset + issuedTimeLength)) (\<lambda>issuedTime.
     let offset = offset + issuedTimeLength in
     ebind (jread_length decoded offset) (\<lambda>dataLength.
     let offset = offset + 2 in
     ebind (copyOfRange decoded offset (offset + dataLength)) (\<lambda>data.
     let offset = offset + dataLength in
     ebind (jread_length decoded offset) (\<lambda>bindingLength.
     let offset = offset + 2 in
     ebind (copyOfRange decoded offset (offset + bindingLength)) (\<lambda>binding.
     let offset = offset + bindingLength in
     ebind (copyOfRange decoded offset (length decoded)) (\<lambda>signature.
     Inr \<lparr>jt_type = ttype, jt_version = version, jt_id = token_id, jt_options = options,
          jt_issuer = String_US_ASCII issuer, jt_audience = String_US_ASCII audience,
          jt_issuedTime = String_US_ASCII issuedTime, jt_data = data, jt_binding = binding,
          jt_signature = signature, jt_decoded = decoded,
          jt_encoded = encoded\<rparr>))))))))))))))))"

definition commonSanityCheck :: "java_token \<Rightarrow> java_exn + unit" where
  "commonSanityCheck this =
     (if jt_version this \<noteq> VERSION then Inl (IllegalArgumentException ''illegal version'')
      else ebind (validateOrigin (jt_issuer this)) (\<lambda>_. validateOrigin (jt_audience this)))"

definition typedSanityCheck :: "java_token \<Rightarrow> java_exn + unit" where
  "typedSanityCheck this =
     (if jt_type this \<noteq> TYPE_COUNTERSIGNED_TOKEN
      then Inl (IllegalArgumentException ''illegal token type'') else Inr ())"

definition RecoveryToken_of_encoded :: "('k, 'p) java_env \<Rightarrow> jsstring \<Rightarrow> java_exn + java_token" where
  "RecoveryToken_of_encoded env encoded =
     ebind (RecoveryToken_fields env encoded) (\<lambda>this.
     ebind (commonSanityCheck this) (\<lambda>_.
     ebind (typedSanityCheck this) (\<lambda>_. Inr this)))"

subsection \<open>The signing constructor\<close>

text \<open>
  \<open>RecoveryToken(privateKey, id, options, issuer, audience, data, binding)\<close>. The array
  arguments may be \<open>null\<close> (\<open>None\<close>): a null \<open>id\<close> is rejected, \<open>data.clone()\<close> and
  \<open>binding.clone()\<close> throw on \<open>null\<close>. The \<open>put\<close> calls fill the buffer of
  \<open>tokenLength\<close> bytes from the start, and overflow if they write more.
\<close>

definition RecoveryToken_signed ::
  "('k, 'p) java_env \<Rightarrow> 'p \<Rightarrow> byte list option \<Rightarrow> byte \<Rightarrow> jsstring \<Rightarrow> jsstring
   \<Rightarrow> byte list option \<Rightarrow> byte list option \<Rightarrow> java_exn + java_token" where
  "RecoveryToken_signed env privateKey token_id options issuer audience data binding =
     (case token_id of
        None \<Rightarrow> Inl InvalidParameterException
      | Some idb \<Rightarrow>
        if length idb \<noteq> 16 then Inl InvalidParameterException
        else
          ebind (validateOrigin issuer) (\<lambda>_.
          ebind (validateOrigin audience) (\<lambda>_.
          case data of
            None \<Rightarrow> Inl NullPointerException
          | Some d \<Rightarrow>
            (case binding of
               None \<Rightarrow> Inl NullPointerException
             | Some b \<Rightarrow>
               let issuedTime = nowISO8601 env;
                   tokenLength = 1 + 1 + 16 + 1 + 2 + length issuer + 2 + length audience
                     + 2 + length issuedTime + 2 + length d + 2 + length b;
                   written = [VERSION] @ [TYPE_RECOVERY_TOKEN] @ idb @ [options]
                     @ putChar (length issuer) @ getBytes_US_ASCII issuer
                     @ putChar (length audience) @ getBytes_US_ASCII audience
                     @ putChar (length issuedTime) @ getBytes_US_ASCII issuedTime
                     @ putChar (length d) @ d
                     @ putChar (length b) @ b
               in
               if length written > tokenLength then Inl BufferOverflowException
               else
                 let rawToken = written @ replicate (tokenLength - length written) 0;
                     signature = jECDSA_sign env privateKey rawToken;
                     decoded = rawToken @ signature
                 in Inr \<lparr>jt_type = TYPE_RECOVERY_TOKEN, jt_version = VERSION, jt_id = idb,
                         jt_options = options, jt_issuer = issuer, jt_audience = audience,
                         jt_issuedTime = issuedTime, jt_data = d, jt_binding = b,
                         jt_signature = signature, jt_decoded = decoded,
                         jt_encoded = jBase64_encode env decoded\<rparr>))))"

subsection \<open>\<open>isSignatureValid\<close>\<close>

text \<open>The loop over \<open>keys\<close>. The method catches \<open>NoSuchAlgorithmException\<close> only; what
  \<open>initVerify\<close> and \<open>verify\<close> throw leaves the method.\<close>

fun jverify_loop ::
  "('k, 'p) java_env \<Rightarrow> java_token \<Rightarrow> 'k list \<Rightarrow> java_exn + bool" where
  "jverify_loop env this [] = Inr False"
| "jverify_loop env this (key # keys) =
     ebind (copyOfRange (jt_decoded this) 0
              (length (jt_decoded this) - length (jt_signature this))) (\<lambda>signed.
     case jSignature_verify env key signed (jt_signature this) of
       Inl e \<Rightarrow> Inl e
     | Inr ok \<Rightarrow> if ok then Inr True else jverify_loop env this keys)"

definition jisSignatureValid :: "('k, 'p) java_env \<Rightarrow> java_token \<Rightarrow> 'k list \<Rightarrow> java_exn + bool" where
  "jisSignatureValid env this keys = jverify_loop env this keys"

subsection \<open>\<open>CountersignedRecoveryToken\<close>\<close>

text \<open>\<open>Math.abs\<close> on a \<open>long\<close>, and the test
  \<open>skew > (allowedClockSkewSec * 1000)\<close>: the product is an \<open>int\<close> product, widened to
  a \<open>long\<close> for the comparison.\<close>

definition Math_abs_long :: "64 word \<Rightarrow> 64 word" where
  "Math_abs_long x = (if sint x < 0 then - x else x)"

definition skew_exceeded :: "64 word \<Rightarrow> 64 word \<Rightarrow> 32 word \<Rightarrow> bool" where
  "skew_exceeded issuedTime now allowedClockSkewSec =
     (let skew = Math_abs_long (issuedTime - now) in
      sint skew > sint (scast (allowedClockSkewSec * 1000 :: 32 word) :: 64 word))"

text \<open>
  \<open>CountersignedRecoveryToken(encoded, issuer, audience, keys, allowedClockSkewSec,
  binding)\<close>; \<open>binding\<close> may be \<open>null\<close> (\<open>None\<close>). \<open>super(encoded)\<close> runs the sanity
  checks; the subclass overrides \<open>typedSanityCheck\<close> with the same test.
\<close>

definition CountersignedRecoveryToken_new ::
  "('k, 'p) java_env \<Rightarrow> jsstring \<Rightarrow> jsstring \<Rightarrow> jsstring \<Rightarrow> 'k list \<Rightarrow> 32 word
   \<Rightarrow> byte list option \<Rightarrow> java_exn + java_token" where
  "CountersignedRecoveryToken_new env encoded issuer audience keys allowedClockSkewSec binding =
     ebind (RecoveryToken_of_encoded env encoded) (\<lambda>this.
       if jt_issuer this \<noteq> issuer
         then Inl (InvalidTokenException ''issuer doesn't match expected'')
       else if jt_audience this \<noteq> audience
         then Inl (InvalidTokenException ''audience doesn't match expected'')
       else if binding \<noteq> None \<and> Some (jt_binding this) \<noteq> binding
         then Inl (InvalidTokenException ''binding doesn't match expected'')
       else
         ebind (jisSignatureValid env this keys) (\<lambda>valid.
         if \<not> valid then Inl (InvalidTokenException ''token signature didn't verify'')
         else
           (case fromISO8601 env (jt_issuedTime this) of
              None \<Rightarrow> Inl (InvalidTokenException ''unparsable issuedTime'')
            | Some issuedTime \<Rightarrow>
                if skew_exceeded issuedTime (jDate_getTime env) allowedClockSkewSec
                then Inl (InvalidTokenException
                            ''Issued time for token outside valid clock skew window.'')
                else Inr this)))"

subsection \<open>The platform calls of the Java validation\<close>

text \<open>\<open>verifier.verify(signature)\<close> after \<open>initVerify(key)\<close>,
  \<open>DelegatedRecoveryUtils.fromISO8601(s).getTime()\<close> (a \<open>ParseException\<close> is rethrown as
  an \<open>InvalidTokenException\<close>) and \<open>new Date().getTime()\<close> as calls.\<close>

definition jSignature_verify_run ::
  "('k, 'p) java_env \<Rightarrow> 'k \<Rightarrow> byte list \<Rightarrow> byte list \<Rightarrow> ('k, java_exn, bool) run" where
  "jSignature_verify_run env key message sig =
     ([CallVerify key], jSignature_verify env key message sig)"

definition fromISO8601_run :: "('k, 'p) java_env \<Rightarrow> jsstring \<Rightarrow> ('k, java_exn, 64 word) run" where
  "fromISO8601_run env s =
     ([CallDateParse s],
      case fromISO8601 env s of
        None \<Rightarrow> Inl (InvalidTokenException ''unparsable issuedTime'')
      | Some issuedTime \<Rightarrow> Inr issuedTime)"

definition jDate_getTime_run :: "('k, 'p) java_env \<Rightarrow> ('k, java_exn, 64 word) run" where
  "jDate_getTime_run env = ([CallClock], Inr (jDate_getTime env))"

fun jverify_loop_run ::
  "('k, 'p) java_env \<Rightarrow> java_token \<Rightarrow> 'k list \<Rightarrow> ('k, java_exn, bool) run" where
  "jverify_loop_run env this [] = run_return False"
| "jverify_loop_run env this (key # keys) =
     run_bind (run_pure (copyOfRange (jt_decoded this) 0
                 (length (jt_decoded this) - length (jt_signature this)))) (\<lambda>signed.
     run_bind (jSignature_verify_run env key signed (jt_signature this)) (\<lambda>ok.
     if ok then run_return True else jverify_loop_run env this keys))"

definition jisSignatureValid_run ::
  "('k, 'p) java_env \<Rightarrow> java_token \<Rightarrow> 'k list \<Rightarrow> ('k, java_exn, bool) run" where
  "jisSignatureValid_run env this keys = jverify_loop_run env this keys"

text \<open>The constructor of \<open>CountersignedRecoveryToken\<close>, statement by statement.\<close>

definition CountersignedRecoveryToken_run ::
  "('k, 'p) java_env \<Rightarrow> jsstring \<Rightarrow> jsstring \<Rightarrow> jsstring \<Rightarrow> 'k list \<Rightarrow> 32 word
   \<Rightarrow> byte list option \<Rightarrow> ('k, java_exn, java_token) run" where
  "CountersignedRecoveryToken_run env encoded issuer audience keys allowedClockSkewSec binding =
     run_bind (run_pure (RecoveryToken_of_encoded env encoded)) (\<lambda>this.
       if jt_issuer this \<noteq> issuer
         then run_throw (InvalidTokenException ''issuer doesn't match expected'')
       else if jt_audience this \<noteq> audience
         then run_throw (InvalidTokenException ''audience doesn't match expected'')
       else if binding \<noteq> None \<and> Some (jt_binding this) \<noteq> binding
         then run_throw (InvalidTokenException ''binding doesn't match expected'')
       else
         run_bind (jisSignatureValid_run env this keys) (\<lambda>valid.
         if \<not> valid then run_throw (InvalidTokenException ''token signature didn't verify'')
         else
           run_bind (fromISO8601_run env (jt_issuedTime this)) (\<lambda>issuedTime.
           run_bind (jDate_getTime_run env) (\<lambda>now.
           if skew_exceeded issuedTime now allowedClockSkewSec
           then run_throw (InvalidTokenException
                             ''Issued time for token outside valid clock skew window.'')
           else run_return this))))"

section \<open>Concrete inputs\<close>

text \<open>
  A platform for the concrete evaluations. Its verifier accepts the two signature
  bytes \<open>30 00\<close> under the key \<open>K\<close> and nothing else, and its signer produces these
  bytes. Its clock reads 2017-01-31T15:04:05Z, and its date parser knows the time two
  hours earlier.
\<close>

definition test_env :: node_env where
  "test_env = \<lparr>
     base64_decode = (\<lambda>s. []),
     base64_encode = (\<lambda>b. []),
     utf8_encode = map ucast,
     crypto_sign = (\<lambda>pem raw. Inr [0x30, 0x00]),
     crypto_verify = (\<lambda>pem raw sig.
        Inr (pem = publicKeyToPEM (js_str ''K'') \<and> sig = [0x30, 0x00])),
     now_toISOString = js_str ''2017-01-31T15:04:05.000Z'',
     Date_now = 1485875045000,
     Date_parse = (\<lambda>s. if s = js_str ''2017-01-31T13:04:05.000Z''
                        then Num 1485867845000 else NaN)\<rparr>"

text \<open>
  The same platform with a verifier that throws for every key but \<open>K\<close>, as the
  platform's \<open>verify\<close> does for a key that it cannot decode (the message stands for
  the platform's).
\<close>

definition throwing_env :: node_env where
  "throwing_env = test_env\<lparr>crypto_verify := (\<lambda>pem raw sig.
       if pem = publicKeyToPEM (js_str ''K'') then Inr (sig = [0x30, 0x00])
       else Inl (Error ''PEM routines: no start line''))\<rparr>"

definition example_id :: "byte list" where
  "example_id = [0x00, 0x11, 0x22, 0x33, 0x44, 0x55, 0x66, 0x77,
                 0x88, 0x99, 0xAA, 0xBB, 0xCC, 0xDD, 0xEE, 0xFF]"

text \<open>
  A countersigned token (type 0x01) from \<open>https://rp.example\<close> to
  \<open>https://ap.example\<close>, issued at 2017-01-31T13:04:05.000Z, with empty data and
  binding, followed by the given signature bytes.
\<close>

definition example_countersigned :: "byte list \<Rightarrow> byte list" where
  "example_countersigned sig =
     [0x00, 0x01] @ example_id @ [0x00]
     @ [0x00, 0x12] @ Buffer_from_ascii (js_str ''https://rp.example'')
     @ [0x00, 0x12] @ Buffer_from_ascii (js_str ''https://ap.example'')
     @ [0x00, 0x18] @ Buffer_from_ascii (js_str ''2017-01-31T13:04:05.000Z'')
     @ [0x00, 0x00] @ [0x00, 0x00] @ sig"

text \<open>A buffer with empty issuer, audience, issued time and data, whose binding length
  field declares 5 bytes where 2 remain.\<close>

definition overrun_buffer :: "byte list" where
  "overrun_buffer =
     [0x00, 0x00] @ [0, 0, 0, 0, 0, 0, 0, 0, 0, 0, 0, 0, 0, 0, 0, 0] @ [0x00]
     @ [0x00, 0x00] @ [0x00, 0x00] @ [0x00, 0x00] @ [0x00, 0x00] @ [0x00, 0x05] @ [0x01, 0x02]"

text \<open>
  A platform for the concrete evaluations of the Java SDK, with keys numbered. Its
  verifier throws a \<open>SignatureException\<close> for a signature that does not start with the
  DER sequence tag 0x30, as \<open>Signature.verify\<close> does for a signature that is not
  properly encoded, and accepts the bytes \<open>30 00\<close> under key 1. Its base64 is a
  placeholder that maps a code unit to a byte and back.
\<close>

definition test_jenv :: "(nat, nat) java_env" where
  "test_jenv = \<lparr>
     jBase64_decode = (\<lambda>s. Inr (map ucast s)),
     jBase64_encode = map ucast,
     jSignature_verify = (\<lambda>key signed sig.
        if sig = [] \<or> hd sig \<noteq> 0x30 then Inl SignatureException
        else Inr (key = 1 \<and> sig = [0x30, 0x00])),
     jECDSA_sign = (\<lambda>privateKey raw. [0x30, 0x00]),
     nowISO8601 = js_str ''2017-01-31T15:04:05+00:00'',
     fromISO8601 = (\<lambda>s. if s = js_str ''2017-01-31T13:04:05+00:00''
                         then Some 1485867845000 else None),
     jDate_getTime = 1485875045000\<rparr>"

text \<open>The example token with its issued time in the format of the Java SDK.\<close>

definition example_java_bytes :: "byte list \<Rightarrow> byte list" where
  "example_java_bytes sig =
     [0x00, 0x01] @ example_id @ [0x00]
     @ [0x00, 0x12] @ getBytes_US_ASCII (js_str ''https://rp.example'')
     @ [0x00, 0x12] @ getBytes_US_ASCII (js_str ''https://ap.example'')
     @ [0x00, 0x19] @ getBytes_US_ASCII (js_str ''2017-01-31T13:04:05+00:00'')
     @ [0x00, 0x00] @ [0x00, 0x00] @ sig"

definition example_java_token :: "byte list \<Rightarrow> java_token" where
  "example_java_token sig =
     \<lparr>jt_type = 0x01, jt_version = 0x00, jt_id = example_id, jt_options = 0x00,
      jt_issuer = js_str ''https://rp.example'', jt_audience = js_str ''https://ap.example'',
      jt_issuedTime = js_str ''2017-01-31T13:04:05+00:00'', jt_data = [], jt_binding = [],
      jt_signature = sig, jt_decoded = example_java_bytes sig,
      jt_encoded = map ucast (example_java_bytes sig)\<rparr>"

text \<open>The recovery token that the signing constructor of the Java SDK makes of the
  example's fields at the clock time of \<open>test_jenv\<close>.\<close>

definition example_java_recovery_bytes :: "byte list" where
  "example_java_recovery_bytes =
     [0x00, 0x00] @ example_id @ [0x00]
     @ [0x00, 0x12] @ getBytes_US_ASCII (js_str ''https://rp.example'')
     @ [0x00, 0x12] @ getBytes_US_ASCII (js_str ''https://ap.example'')
     @ [0x00, 0x19] @ getBytes_US_ASCII (js_str ''2017-01-31T15:04:05+00:00'')
     @ [0x00, 0x00] @ [0x00, 0x00] @ [0x30, 0x00]"

definition example_java_recovery_token :: java_token where
  "example_java_recovery_token =
     \<lparr>jt_type = 0x00, jt_version = 0x00, jt_id = example_id, jt_options = 0x00,
      jt_issuer = js_str ''https://rp.example'', jt_audience = js_str ''https://ap.example'',
      jt_issuedTime = js_str ''2017-01-31T15:04:05+00:00'', jt_data = [], jt_binding = [],
      jt_signature = [0x30, 0x00], jt_decoded = example_java_recovery_bytes,
      jt_encoded = map ucast example_java_recovery_bytes\<rparr>"


section \<open>Token-status callback: results\<close>

text \<open>
  Claim C7, at the Node handler. The claim asks that status \<open>deleted\<close> removes a known
  record, as status \<open>save-failure\<close> does. The \<open>switch\<close> of the Node handler has no case
  for \<open>deleted\<close>: the record of scenario S1 is still stored, unchanged, after the
  callback \<open>{id, status: "deleted"}\<close>, and the reply is 200 with an empty body.
\<close>

theorem C7_js_deleted_keeps_record:
  "js_token_status [s1_record] (Some (js_str ''00112233445566778899aabbccddeeff''))
     (Some (js_str ''deleted''))
   = (\<lparr>http_code = 200, http_body = []\<rparr>, [s1_record])"
  by (simp add: js_token_status_def js_status_switch_def s1_record_def js_str_def)

section \<open>The origin pattern: the matcher decides the pattern's language\<close>

lemma Deriv_conc:
  "Deriv c (conc A B) = conc (Deriv c A) B \<union> (if [] \<in> A then Deriv c B else {})"
proof (rule set_eqI)
  fix w
  show "w \<in> Deriv c (conc A B) \<longleftrightarrow>
        w \<in> conc (Deriv c A) B \<union> (if [] \<in> A then Deriv c B else {})"
  proof
    assume "w \<in> Deriv c (conc A B)"
    then obtain a b where ab: "c # w = a @ b" "a \<in> A" "b \<in> B"
      by (auto simp: Deriv_def conc_def)
    show "w \<in> conc (Deriv c A) B \<union> (if [] \<in> A then Deriv c B else {})"
    proof (cases a)
      case Nil
      with ab show ?thesis by (auto simp: Deriv_def)
    next
      case (Cons x a')
      with ab have "x = c" "w = a' @ b" by auto
      with ab Cons show ?thesis by (auto simp: Deriv_def conc_def)
    qed
  next
    assume h: "w \<in> conc (Deriv c A) B \<union> (if [] \<in> A then Deriv c B else {})"
    then consider (l) "w \<in> conc (Deriv c A) B" | (r) "[] \<in> A" "w \<in> Deriv c B"
      by (auto split: if_splits)
    then show "w \<in> Deriv c (conc A B)"
    proof cases
      case l
      then obtain a b where "w = a @ b" "c # a \<in> A" "b \<in> B"
        by (auto simp: Deriv_def conc_def)
      then have "c # w = (c # a) @ b \<and> c # a \<in> A \<and> b \<in> B" by simp
      then show ?thesis unfolding Deriv_def conc_def by blast
    next
      case r
      then have "c # w = [] @ (c # w) \<and> [] \<in> A \<and> c # w \<in> B" by (simp add: Deriv_def)
      then show ?thesis unfolding Deriv_def conc_def by blast
    qed
  qed
qed

lemma conc_mono_right: "B \<subseteq> C \<Longrightarrow> conc A B \<subseteq> conc A C"
  by (auto simp: conc_def)

lemma lpow_grows: "[] \<in> L \<Longrightarrow> lpow L n \<subseteq> lpow L (Suc n)"
proof (induction n)
  case 0
  then show ?case by (auto simp: conc_def)
next
  case (Suc n)
  then show ?case using conc_mono_right [of "lpow L n" "lpow L (Suc n)" L] by simp
qed

lemma conc_eps_right: "conc A {[]} = A"
  by (auto simp: conc_def)

lemma Deriv_lpow_Suc: "Deriv c (lpow L (Suc n)) = conc (Deriv c L) (lpow L n)"
proof (induction n)
  case 0
  show ?case by (simp add: conc_eps_right)
next
  case (Suc n)
  have "Deriv c (lpow L (Suc (Suc n))) =
        conc (Deriv c L) (lpow L (Suc n)) \<union> (if [] \<in> L then Deriv c (lpow L (Suc n)) else {})"
    using Deriv_conc [of c L "lpow L (Suc n)"] by simp
  moreover have "[] \<in> L \<Longrightarrow> Deriv c (lpow L (Suc n)) \<subseteq> conc (Deriv c L) (lpow L (Suc n))"
    using Suc.IH lpow_grows [of L n] conc_mono_right [of "lpow L n" "lpow L (Suc n)" "Deriv c L"]
    by simp
  ultimately show ?case by auto
qed

lemma Deriv_lpow_0: "Deriv c (lpow L 0) = {}"
  by (simp add: Deriv_def)

lemma Deriv_UN: "Deriv c (\<Union>n\<in>N. F n) = (\<Union>n\<in>N. Deriv c (F n))"
  by (auto simp: Deriv_def)

lemma conc_UN_right: "conc A (\<Union>n\<in>N. F n) = (\<Union>n\<in>N. conc A (F n))"
  by (auto simp: conc_def)

lemma Deriv_rep:
  "Deriv c (\<Union>n\<in>{n. in_range lo hi n}. lpow L n) =
   (if hi = Some 0 then {}
    else conc (Deriv c L) (\<Union>m\<in>{m. in_range (lo - 1) (map_option (\<lambda>h. h - 1) hi) m}. lpow L m))"
proof -
  have split: "Deriv c (\<Union>n\<in>{n. in_range lo hi n}. lpow L n) =
        (\<Union>m\<in>{m. in_range lo hi (Suc m)}. conc (Deriv c L) (lpow L m))"
  proof (rule set_eqI)
    fix w
    show "w \<in> Deriv c (\<Union>n\<in>{n. in_range lo hi n}. lpow L n) \<longleftrightarrow>
          w \<in> (\<Union>m\<in>{m. in_range lo hi (Suc m)}. conc (Deriv c L) (lpow L m))"
    proof
      assume "w \<in> Deriv c (\<Union>n\<in>{n. in_range lo hi n}. lpow L n)"
      then obtain n where n: "in_range lo hi n" "w \<in> Deriv c (lpow L n)"
        by (auto simp: Deriv_UN)
      then obtain m where "n = Suc m"
        by (cases n) (auto simp: Deriv_def)
      with n show "w \<in> (\<Union>m\<in>{m. in_range lo hi (Suc m)}. conc (Deriv c L) (lpow L m))"
        using Deriv_lpow_Suc [of c L m] by auto
    next
      assume "w \<in> (\<Union>m\<in>{m. in_range lo hi (Suc m)}. conc (Deriv c L) (lpow L m))"
      then obtain m where "in_range lo hi (Suc m)" "w \<in> Deriv c (lpow L (Suc m))"
        using Deriv_lpow_Suc [of c L] by auto
      then show "w \<in> Deriv c (\<Union>n\<in>{n. in_range lo hi n}. lpow L n)"
        unfolding Deriv_UN by blast
    qed
  qed
  have idx: "in_range lo hi (Suc m) \<longleftrightarrow>
             hi \<noteq> Some 0 \<and> in_range (lo - 1) (map_option (\<lambda>h. h - 1) hi) m" for m
    by (cases hi) (auto simp: in_range_def)
  show ?thesis
    unfolding split by (auto simp: idx conc_UN_right)
qed

lemma nullable_iff: "nullable r \<longleftrightarrow> [] \<in> lang r"
proof (induction r)
  case (Rep r lo hi)
  have pw: "[] \<in> lpow L n \<longleftrightarrow> n = 0 \<or> [] \<in> L" for L :: "jsstring set" and n
    by (induction n) (auto simp: conc_def)
  have "[] \<in> lang (Rep r lo hi) \<longleftrightarrow> (\<exists>n. in_range lo hi n \<and> (n = 0 \<or> [] \<in> lang r))"
    by (auto simp: pw)
  also have "\<dots> \<longleftrightarrow> (lo = 0 \<or> nullable r) \<and> in_range lo hi lo"
    using Rep.IH by (cases hi) (auto simp: in_range_def)
  finally show ?case by simp
qed (auto simp: conc_def)

lemma lang_deriv: "lang (deriv c r) = Deriv c (lang r)"
proof (induction r)
  case (Times a b)
  then show ?case by (simp add: Deriv_conc nullable_iff)
next
  case (Rep r lo hi)
  then show ?case using Deriv_rep [where c = c and lo = lo and hi = hi and L = "lang r"] by simp
qed (auto simp: Deriv_def)

lemma lang_derivs: "s \<in> lang (foldl (\<lambda>r c. deriv c r) r w) \<longleftrightarrow> w @ s \<in> lang r"
  by (induction w arbitrary: r) (simp_all add: lang_deriv Deriv_def)

lemma regex_matches_iff: "regex_matches r s \<longleftrightarrow> s \<in> lang r"
  using lang_derivs [of "[]" r s] by (simp add: regex_matches_def nullable_iff)


subsection \<open>The pattern's language is the specification's grammar\<close>

lemma lpow_chars:
  "lpow {[c] | c. P c} n = {w. length w = n \<and> (\<forall>c\<in>set w. P c)}"
proof (induction n)
  case 0
  show ?case by auto
next
  case (Suc n)
  show ?case
  proof (rule set_eqI)
    fix w :: "'a list"
    show "w \<in> lpow {[c] | c. P c} (Suc n) \<longleftrightarrow> w \<in> {w. length w = Suc n \<and> (\<forall>c\<in>set w. P c)}"
    proof (cases w)
      case Nil
      then show ?thesis by (auto simp: conc_def)
    next
      case (Cons x xs)
      have "x # xs \<in> conc {[c] | c. P c} (lpow {[c] | c. P c} n) \<longleftrightarrow>
            (\<exists>c b. x # xs = [c] @ b \<and> P c \<and> b \<in> lpow {[c] | c. P c} n)"
        unfolding conc_def by blast
      also have "\<dots> \<longleftrightarrow> P x \<and> xs \<in> lpow {[c] | c. P c} n"
        by auto
      finally have "x # xs \<in> conc {[c] | c. P c} (lpow {[c] | c. P c} n) \<longleftrightarrow>
            P x \<and> xs \<in> lpow {[c] | c. P c} n" .
      with Cons Suc.IH show ?thesis by auto
    qed
  qed
qed

lemma lang_rep_cls:
  "lang (Rep (Cls cs) lo hi) = {w. in_range lo hi (length w) \<and> (\<forall>c\<in>set w. in_cls c cs)}"
  using lpow_chars [of "\<lambda>c. in_cls c cs"] by auto

lemma lpow_concat: "lpow L n = {concat ws | ws. length ws = n \<and> set ws \<subseteq> L}"
proof (induction n)
  case 0
  show ?case by auto
next
  case (Suc n)
  show ?case
  proof (rule set_eqI)
    fix w
    show "w \<in> lpow L (Suc n) \<longleftrightarrow> w \<in> {concat ws | ws. length ws = Suc n \<and> set ws \<subseteq> L}"
    proof
      assume "w \<in> lpow L (Suc n)"
      then obtain a ws where "w = a @ concat ws" "a \<in> L" "length ws = n" "set ws \<subseteq> L"
        using Suc.IH by (auto simp: conc_def)
      then have "w = concat (a # ws) \<and> length (a # ws) = Suc n \<and> set (a # ws) \<subseteq> L" by simp
      then show "w \<in> {concat ws | ws. length ws = Suc n \<and> set ws \<subseteq> L}" by blast
    next
      assume "w \<in> {concat ws | ws. length ws = Suc n \<and> set ws \<subseteq> L}"
      then obtain ws where ws: "w = concat ws" "length ws = Suc n" "set ws \<subseteq> L" by blast
      then obtain a ws' where "ws = a # ws'" by (cases ws) auto
      with ws have "w = a @ concat ws'" "a \<in> L" "concat ws' \<in> lpow L n"
        using Suc.IH by auto
      then show "w \<in> lpow L (Suc n)" by (auto simp: conc_def)
    qed
  qed
qed

lemma lang_chr: "lang (chr c) = {[c]}"
  by (auto simp: chr_def)

lemma lang_lit: "lang (lit s) = {s}"
  by (induction s) (auto simp: lit_def lang_chr conc_def)

lemma conc_single_left: "conc {a} B = {a @ b | b. b \<in> B}"
  by (auto simp: conc_def)

lemma in_cls_label: "in_cls c [(0x61, 0x7A), (0x30, 0x39), (0x2D, 0x2D)] \<longleftrightarrow> is_label_char c"
  by (auto simp: is_label_char_def is_lower_def is_digit_def)

lemma in_cls_lower: "in_cls c [(0x61, 0x7A)] \<longleftrightarrow> is_lower c"
  by (simp add: is_lower_def)

lemma in_cls_digit: "in_cls c [(0x30, 0x39)] \<longleftrightarrow> is_digit c"
  by (simp add: is_digit_def)

lemma lang_label_dot:
  "lang (Times (Rep (Cls [(0x61, 0x7A), (0x30, 0x39), (0x2D, 0x2D)]) 1 (Some 63)) (chr 0x2E)) = label_dot_lang"
  unfolding lang.simps(5) lang_rep_cls lang_chr label_dot_lang_def in_cls_label
  by (auto simp: conc_def in_range_def)

lemma lang_hosts:
  "lang (Rep (Times (Rep (Cls [(0x61, 0x7A), (0x30, 0x39), (0x2D, 0x2D)]) 1 (Some 63)) (chr 0x2E)) 1 None)
   = {concat (map (\<lambda>l. l @ [0x2E]) labels) | labels.
        labels \<noteq> [] \<and> (\<forall>l\<in>set labels. 1 \<le> length l \<and> length l \<le> 63 \<and> (\<forall>c\<in>set l. is_label_char c))}"
  (is "?L = ?R")
proof (rule set_eqI)
  fix w
  have L: "w \<in> ?L \<longleftrightarrow> (\<exists>ws. w = concat ws \<and> 1 \<le> length ws \<and> set ws \<subseteq> label_dot_lang)"
    unfolding lang.simps(6) lang_label_dot by (auto simp: lpow_concat in_range_def)
  show "w \<in> ?L \<longleftrightarrow> w \<in> ?R"
  proof
    assume "w \<in> ?L"
    then obtain ws where ws: "w = concat ws" "1 \<le> length ws" "set ws \<subseteq> label_dot_lang"
      using L by blast
    define labels where "labels = map butlast ws"
    have each: "x \<in> set ws \<Longrightarrow> x = butlast x @ [0x2E] \<and> 1 \<le> length (butlast x)
        \<and> length (butlast x) \<le> 63 \<and> (\<forall>c\<in>set (butlast x). is_label_char c)" for x
      using ws(3) by (auto simp: label_dot_lang_def)
    have "map (\<lambda>l. l @ [0x2E]) labels = ws"
      unfolding labels_def using each by (induction ws) auto
    moreover have "labels \<noteq> []" using ws(2) by (auto simp: labels_def)
    moreover have "\<forall>l\<in>set labels. 1 \<le> length l \<and> length l \<le> 63 \<and> (\<forall>c\<in>set l. is_label_char c)"
      unfolding labels_def using each by auto
    ultimately show "w \<in> ?R" using ws(1) by blast
  next
    assume "w \<in> ?R"
    then obtain labels where l: "w = concat (map (\<lambda>l. l @ [0x2E]) labels)" "labels \<noteq> []"
      "\<forall>l\<in>set labels. 1 \<le> length l \<and> length l \<le> 63 \<and> (\<forall>c\<in>set l. is_label_char c)"
      by blast
    have "set (map (\<lambda>l. l @ [0x2E]) labels) \<subseteq> label_dot_lang"
      using l(3) by (auto simp: label_dot_lang_def)
    moreover have "1 \<le> length (map (\<lambda>l. l @ [0x2E]) labels)"
      using l(2) by (cases labels) auto
    ultimately show "w \<in> ?L" using L l(1) by blast
  qed
qed

lemma lang_tld:
  "lang (Rep (Cls [(0x61, 0x7A)]) 2 (Some 63)) = {t. 2 \<le> length t \<and> length t \<le> 63 \<and> (\<forall>c\<in>set t. is_lower c)}"
  unfolding lang_rep_cls in_cls_lower by (auto simp: in_range_def)

lemma lang_port:
  "lang (Rep (Times (chr 0x3A) (Rep (Cls [(0x30, 0x39)]) 1 None)) 0 (Some 1))
   = {p. p = [] \<or> (\<exists>ds. p = [0x3A] @ ds \<and> ds \<noteq> [] \<and> (\<forall>c\<in>set ds. is_digit c))}"
proof -
  have one: "lang (Times (chr 0x3A) (Rep (Cls [(0x30, 0x39)]) 1 None))
        = {[0x3A] @ ds | ds. ds \<noteq> [] \<and> (\<forall>c\<in>set ds. is_digit c)}"
    unfolding lang.simps(5) lang_rep_cls lang_chr in_cls_digit
    by (auto simp: conc_def in_range_def Suc_le_eq)
  have idx: "{n. in_range 0 (Some 1) n} = {0, Suc 0}"
    by (auto simp: in_range_def)
  show ?thesis
    unfolding lang.simps(6) one idx by (auto simp: conc_def)
qed

lemma js_str_https: "js_str ''https://'' = [0x68, 0x74, 0x74, 0x70, 0x73, 0x3A, 0x2F, 0x2F]"
  and js_str_dot: "js_str ''.'' = [0x2E]" and js_str_colon: "js_str '':'' = [0x3A]"
  by (simp_all add: js_str_def)

lemma conc_iff: "w \<in> conc A B \<longleftrightarrow> (\<exists>a b. w = a @ b \<and> a \<in> A \<and> b \<in> B)"
  by (auto simp: conc_def)

lemma lang_originRegex: "s \<in> lang originRegex \<longleftrightarrow> spec_origin_grammar s"
proof -
  define H where "H = {concat (map (\<lambda>l. l @ [0x2E]) labels) | labels.
        labels \<noteq> [] \<and> (\<forall>l\<in>set labels. 1 \<le> length l \<and> length l \<le> 63 \<and> (\<forall>c\<in>set l. is_label_char c))}"
  define T where "T = {t::jsstring. 2 \<le> length t \<and> length t \<le> 63 \<and> (\<forall>c\<in>set t. is_lower c)}"
  define P where "P = {p. p = [] \<or> (\<exists>ds. p = [0x3A] @ ds \<and> ds \<noteq> [] \<and> (\<forall>c\<in>set ds. is_digit c))}"
  have L: "lang originRegex = conc {js_str ''https://''} (conc H (conc T P))"
    unfolding originRegex_def lang.simps(5) lang_lit lang_hosts lang_tld lang_port H_def T_def P_def ..
  show ?thesis
  proof
    assume "s \<in> lang originRegex"
    then obtain h t p where s: "s = js_str ''https://'' @ h @ t @ p" and h: "h \<in> H"
      and t: "t \<in> T" and p: "p \<in> P"
      unfolding L conc_iff by auto
    from h obtain labels where labels: "h = concat (map (\<lambda>l. l @ [0x2E]) labels)" "labels \<noteq> []"
      "\<forall>l\<in>set labels. 1 \<le> length l \<and> length l \<le> 63 \<and> (\<forall>c\<in>set l. is_label_char c)"
      unfolding H_def by blast
    have "s = js_str ''https://'' @ concat (map (\<lambda>l. l @ js_str ''.'') labels) @ t @ p
      \<and> labels \<noteq> []
      \<and> (\<forall>l\<in>set labels. 1 \<le> length l \<and> length l \<le> 63 \<and> (\<forall>c\<in>set l. is_label_char c))
      \<and> 2 \<le> length t \<and> length t \<le> 63 \<and> (\<forall>c\<in>set t. is_lower c)
      \<and> (p = [] \<or> (\<exists>ds. p = js_str '':'' @ ds \<and> ds \<noteq> [] \<and> (\<forall>c\<in>set ds. is_digit c)))"
      using s labels t p unfolding T_def P_def js_str_dot js_str_colon by simp
    then show "spec_origin_grammar s"
      unfolding spec_origin_grammar_def by (intro exI)
  next
    assume "spec_origin_grammar s"
    then obtain labels t p where g:
      "s = js_str ''https://'' @ concat (map (\<lambda>l. l @ [0x2E]) labels) @ t @ p"
      "labels \<noteq> []"
      "\<forall>l\<in>set labels. 1 \<le> length l \<and> length l \<le> 63 \<and> (\<forall>c\<in>set l. is_label_char c)"
      "2 \<le> length t \<and> length t \<le> 63 \<and> (\<forall>c\<in>set t. is_lower c)"
      "p = [] \<or> (\<exists>ds. p = [0x3A] @ ds \<and> ds \<noteq> [] \<and> (\<forall>c\<in>set ds. is_digit c))"
      unfolding spec_origin_grammar_def js_str_dot js_str_colon by blast
    have "concat (map (\<lambda>l. l @ [0x2E]) labels) \<in> H"
      unfolding H_def using g(2,3) by blast
    moreover have "t \<in> T" using g(4) by (simp add: T_def)
    moreover have "p \<in> P" using g(5) by (simp add: P_def)
    ultimately show "s \<in> lang originRegex"
      unfolding L conc_iff using g(1) by blast
  qed
qed

subsection \<open>Consequences of the grammar\<close>

lemma regex_matches_originRegex: "regex_matches originRegex s \<longleftrightarrow> spec_origin_grammar s"
  by (simp add: regex_matches_iff lang_originRegex)

lemma is_lower_ascii: "is_lower c \<Longrightarrow> c \<le> 0x7F"
proof -
  assume "is_lower c"
  then have "c \<le> 0x7A" by (simp add: is_lower_def)
  moreover have "(0x7A :: jschar) \<le> 0x7F" by simp
  ultimately show ?thesis by (rule order_trans)
qed

lemma is_digit_ascii: "is_digit c \<Longrightarrow> c \<le> 0x7F"
proof -
  assume "is_digit c"
  then have "c \<le> 0x39" by (simp add: is_digit_def)
  moreover have "(0x39 :: jschar) \<le> 0x7F" by simp
  ultimately show ?thesis by (rule order_trans)
qed

lemma is_label_char_ascii: "is_label_char c \<Longrightarrow> c \<le> 0x7F"
  unfolding is_label_char_def using is_lower_ascii is_digit_ascii by auto

lemma origin_ascii:
  assumes "spec_origin_grammar s"
  shows "\<forall>c\<in>set s. c \<le> 0x7F"
proof -
  from assms obtain labels t p where g:
    "s = js_str ''https://'' @ concat (map (\<lambda>l. l @ js_str ''.'') labels) @ t @ p"
    "\<forall>l\<in>set labels. 1 \<le> length l \<and> length l \<le> 63 \<and> (\<forall>c\<in>set l. is_label_char c)"
    "\<forall>c\<in>set t. is_lower c"
    "p = [] \<or> (\<exists>ds. p = js_str '':'' @ ds \<and> ds \<noteq> [] \<and> (\<forall>c\<in>set ds. is_digit c))"
    unfolding spec_origin_grammar_def by blast
  have h: "\<forall>c\<in>set (js_str ''https://''). c \<le> 0x7F"
    by (simp add: js_str_https)
  have l: "\<forall>c\<in>set (concat (map (\<lambda>l. l @ js_str ''.'') labels)). c \<le> 0x7F"
    using g(2) by (auto simp: js_str_dot dest: is_label_char_ascii)
  have t: "\<forall>c\<in>set t. c \<le> 0x7F"
    using g(3) by (auto dest: is_lower_ascii)
  have p: "\<forall>c\<in>set p. c \<le> 0x7F"
    using g(4) by (auto simp: js_str_colon dest: is_digit_ascii)
  show ?thesis
    unfolding g(1) using h l t p by auto
qed



section \<open>The Node SDK: serialization and deserialization\<close>

subsection \<open>Writes into a fresh buffer\<close>

lemma buf_write_Cons:
  "0 < off \<Longrightarrow> buf_write (x # xs) off src = x # buf_write xs (off - 1) src"
  by (cases off) (simp_all add: buf_write_def)

lemma buf_write_append:
  "length xs \<le> off \<Longrightarrow> buf_write (xs @ ys) off src = xs @ buf_write ys (off - length xs) src"
  by (simp add: buf_write_def add.commute)

lemma buf_write_new_Buffer:
  "length src \<le> k \<Longrightarrow> buf_write (new_Buffer k) 0 src = src @ new_Buffer (k - length src)"
  by (simp add: buf_write_def new_Buffer_def)

lemma length_new_Buffer: "length (new_Buffer k) = k"
  by (simp add: new_Buffer_def)

lemma new_Buffer_0: "new_Buffer 0 = []"
  by (simp add: new_Buffer_def)

lemma RecoveryToken_new_eq:
  "RecoveryToken_new env privateKey token_id options issuer audience issuedTime data binding signature =
    (if \<not> regex_matches originRegex issuer then Inl (Error ''malformed issuer'')
     else if \<not> regex_matches originRegex audience then Inl (Error ''malformed audience'')
     else if length token_id \<noteq> 16 then Inl (Error ''malformed id'')
     else if 255 < options \<or> 65535 < length issuer \<or> 65535 < length audience
          \<or> 65535 < length (effective_issuedTime env issuedTime)
          \<or> 65535 < length data \<or> 65535 < length binding then Inl RangeError
     else
       ebind (case privateKey of
                None \<Rightarrow> (case signature of None \<Rightarrow> Inl TypeError | Some s \<Rightarrow> Inr s)
              | Some key \<Rightarrow> crypto_sign env (ecPrivateKeyToPEM key)
                  (spec_layout 0 0 token_id options (Buffer_from_ascii issuer)
                     (Buffer_from_ascii audience)
                     (Buffer_from_ascii (effective_issuedTime env issuedTime)) data binding))
         (\<lambda>this_signature.
            Inr \<lparr>tok_version = 0, tok_type = 0, tok_id = token_id, tok_options = options,
                 tok_issuer = issuer, tok_audience = audience, tok_data = data,
                 tok_binding = binding,
                 tok_issuedTime = effective_issuedTime env issuedTime,
                 tok_raw = spec_layout 0 0 token_id options (Buffer_from_ascii issuer)
                   (Buffer_from_ascii audience)
                   (Buffer_from_ascii (effective_issuedTime env issuedTime)) data binding,
                 tok_signature = this_signature,
                 tok_encoded = base64_encode env
                   (spec_layout 0 0 token_id options (Buffer_from_ascii issuer)
                      (Buffer_from_ascii audience)
                      (Buffer_from_ascii (effective_issuedTime env issuedTime)) data binding
                    @ this_signature)\<rparr>))"
  unfolding effective_issuedTime_def [symmetric, of _ env]
  apply (simp add: RecoveryToken_new_def Let_def js_search_def effective_issuedTime_def [symmetric])
  apply (simp add: writeUInt8_def writeUInt16BE_def
      buf_copy_def ebind_def buf_write_Cons buf_write_append buf_write_new_Buffer length_new_Buffer new_Buffer_0
      spec_layout_def uint16BE_def Buffer_from_ascii_def split: option.split sum.split)
  done

subsection \<open>Reads from a buffer in the layout\<close>

lemma unat_byte: "n \<le> 255 \<Longrightarrow> unat (of_nat n :: byte) = n"
  by (simp add: unat_of_nat take_bit_nat_eq_self)

lemma uint16_read: "n \<le> 65535 \<Longrightarrow>
   256 * unat (of_nat (n div 256) :: byte) + unat (of_nat (n mod 256) :: byte) = n"
proof -
  assume h: "n \<le> 65535"
  have a: "unat (of_nat (n div 256) :: byte) = n div 256"
    using h by (intro unat_byte) simp
  have b: "unat (of_nat (n mod 256) :: byte) = n mod 256"
    by (intro unat_byte) simp
  show ?thesis unfolding a b by simp
qed

lemma readUInt8_Cons: "readUInt8 (x # xs) off = (if off = 0 then Inr (unat x) else readUInt8 xs (off - 1))"
  by (cases off) (auto simp: readUInt8_def)

lemma readUInt8_append: "length xs \<le> off \<Longrightarrow> readUInt8 (xs @ ys) off = readUInt8 ys (off - length xs)"
  by (auto simp: readUInt8_def nth_append)

lemma readUInt16BE_Cons:
  "0 < off \<Longrightarrow> readUInt16BE (x # xs) off = readUInt16BE xs (off - 1)"
  by (cases off) (auto simp: readUInt16BE_def)

lemma readUInt16BE_0: "readUInt16BE (a # b # xs) 0 = Inr (256 * unat a + unat b)"
  by (simp add: readUInt16BE_def)

lemma readUInt16BE_append:
  "length xs \<le> off \<Longrightarrow> readUInt16BE (xs @ ys) off = readUInt16BE ys (off - length xs)"
  by (auto simp: readUInt16BE_def nth_append Suc_diff_le)

lemma buf_slice_Cons: "0 < s \<Longrightarrow> buf_slice (x # xs) s e = buf_slice xs (s - 1) (e - 1)"
  by (cases s; cases e) (auto simp: buf_slice_def)

lemma buf_slice_append:
  "length xs \<le> s \<Longrightarrow> buf_slice (xs @ ys) s e = buf_slice ys (s - length xs) (e - length xs)"
  by (cases "length xs \<le> e") (auto simp: buf_slice_def min_def)

lemma buf_slice_prefix: "length xs = n \<Longrightarrow> buf_slice (xs @ ys) 0 n = xs"
  by (simp add: buf_slice_def)

lemma buf_slice_0_Cons:
  "buf_slice (x # xs) 0 e = (if e = 0 then [] else x # buf_slice xs 0 (e - 1))"
  by (cases e) (auto simp: buf_slice_def)

lemma buf_slice_0_append:
  "length xs \<le> e \<Longrightarrow> buf_slice (xs @ ys) 0 e = xs @ buf_slice ys 0 (e - length xs)"
  by (simp add: buf_slice_def)

lemma buf_slice_all: "length xs \<le> e \<Longrightarrow> buf_slice xs 0 e = xs"
  by (simp add: buf_slice_def)

lemma buf_slice_none: "buf_slice xs 0 0 = []"
  by (simp add: buf_slice_def)

lemma deserialize_layout:
  assumes "v \<le> 255" "ty \<le> 255" "length token_id = 16" "opts \<le> 255"
    "length a \<le> 65535" "length b \<le> 65535" "length c \<le> 65535"
    "length d \<le> 65535" "length e \<le> 65535"
  shows "deserialize_buffer env (spec_layout v ty token_id opts a b c d e @ sig) =
     Inr [''version'' \<mapsto> JSNumber v,
           ''type'' \<mapsto> JSNumber ty,
           ''id'' \<mapsto> JSBuffer token_id,
           ''options'' \<mapsto> JSNumber opts,
           ''issuer'' \<mapsto> JSString (toString_ascii a),
           ''audience'' \<mapsto> JSString (toString_ascii b),
           ''issuedTime'' \<mapsto> JSString (toString_ascii c),
           ''data'' \<mapsto> JSBuffer d,
           ''binding'' \<mapsto> JSBuffer e,
           ''raw'' \<mapsto> JSBuffer (spec_layout v ty token_id opts a b c d e),
           ''signatureIndex'' \<mapsto> JSNumber (length (spec_layout v ty token_id opts a b c d e)),
           ''signature'' \<mapsto> JSBuffer sig,
           ''encoded'' \<mapsto> JSString (base64_encode env (spec_layout v ty token_id opts a b c d e @ sig))]"
  using assms
  by (simp add: deserialize_buffer_def Let_def spec_layout_def uint16BE_def ebind_def
      readUInt8_Cons readUInt8_append readUInt16BE_Cons readUInt16BE_0 readUInt16BE_append
      buf_slice_Cons buf_slice_append buf_slice_prefix buf_slice_0_Cons buf_slice_0_append buf_slice_all buf_slice_none uint16_read unat_byte)

subsection \<open>ASCII strings survive the buffer\<close>

lemma ascii_char_roundtrip:
  fixes c :: jschar
  assumes "c \<le> 0x7F"
  shows "ucast ((ucast c :: byte) AND 0x7F) = c"
proof (rule bit_word_eqI)
  fix n
  assume n: "n < LENGTH(16)"
  have hi: "\<not> bit c k" if "7 \<le> k" for k
  proof
    assume b: "bit c k"
    then have "k < 16" by (auto dest: bit_imp_le_length)
    have "bit (unat c) k" using b by (simp add: bit_unsigned_iff)
    then have "odd (unat c div 2 ^ k)" by (simp add: bit_iff_odd)
    then have "\<not> unat c < 2 ^ k" by (auto simp: div_less)
    then have "2 ^ k \<le> unat c" by linarith
    moreover have "(2::nat) ^ 7 \<le> 2 ^ k" using that by (intro power_increasing) simp_all
    then have "(128::nat) \<le> 2 ^ k" by simp
    moreover have "unat c \<le> 127" using assms by (simp add: word_le_nat_alt)
    ultimately show False by linarith
  qed
  have m: "(0x7F :: byte) = mask 7" by (simp add: mask_eq_exp_minus_1)
  show "bit (ucast ((ucast c :: byte) AND 0x7F) :: jschar) n \<longleftrightarrow> bit c n"
  proof (cases "bit c n")
    case True
    then have "n < 7" using hi [of n] by (cases "7 \<le> n") auto
    with True n show ?thesis unfolding m by (simp add: bit_simps)
  next
    case False
    then show ?thesis unfolding m by (simp add: bit_simps)
  qed
qed

lemma toString_ascii_roundtrip:
  "\<forall>c\<in>set s. c \<le> 0x7F \<Longrightarrow> toString_ascii (Buffer_from_ascii s) = s"
  by (induction s) (simp_all add: toString_ascii_def Buffer_from_ascii_def ascii_char_roundtrip)


subsection \<open>Round trip\<close>

lemma RecoveryToken_new_InrD:
  assumes "RecoveryToken_new env privateKey token_id options issuer audience issuedTime data binding signature = Inr t"
  shows "regex_matches originRegex issuer" "regex_matches originRegex audience"
    "length token_id = 16" "options \<le> 255" "length issuer \<le> 65535" "length audience \<le> 65535"
    "length (effective_issuedTime env issuedTime) \<le> 65535" "length data \<le> 65535"
    "length binding \<le> 65535"
    "tok_version t = 0" "tok_type t = 0" "tok_id t = token_id" "tok_options t = options"
    "tok_issuer t = issuer" "tok_audience t = audience" "tok_data t = data" "tok_binding t = binding"
    "tok_issuedTime t = effective_issuedTime env issuedTime"
    "tok_raw t = spec_layout 0 0 token_id options (Buffer_from_ascii issuer)
       (Buffer_from_ascii audience) (Buffer_from_ascii (effective_issuedTime env issuedTime)) data binding"
    "tok_encoded t = base64_encode env (tok_raw t @ tok_signature t)"
  using assms unfolding RecoveryToken_new_eq
  by (auto simp: ebind_def split: if_splits sum.splits)

lemma length_Buffer_from_ascii: "length (Buffer_from_ascii s) = length s"
  by (simp add: Buffer_from_ascii_def)

lemma spec_layout_length:
  "length token_id = 16 \<Longrightarrow>
   length (spec_layout v ty token_id opts a b c d e)
   = 29 + length a + length b + length c + length d + length e"
  by (simp add: spec_layout_def uint16BE_def)

text \<open>
  Claim C3. For every valid field tuple (an id of 16 bytes, an options byte, a valid
  issuer and audience, a non-empty ASCII issued time, data and binding of at most 65535
  bytes, the three strings also fitting a 16-bit length field, and a signature), the
  Node constructor returns a token that holds the fields of the tuple, whose \<open>raw\<close> is
  the layout of the tuple and whose \<open>encoded\<close> is the base64 of \<open>raw + signature\<close>;
  signing with a private key whose signature over \<open>raw\<close> is the given one returns the
  same token. \<open>RecoveryToken.deserialize\<close> applied to the buffer \<open>raw + signature\<close>
  (and to \<open>encoded\<close>, when the platform's base64 decodes what it encoded) returns the
  version, type, id, options, issuer, audience, issued time, data, binding and
  signature of the tuple; the signature starts at \<open>signatureIndex\<close>, which is the end
  of the length-prefixed fields, and \<open>raw\<close> is everything before it.
\<close>

theorem C3_roundtrip:
  "length token_id = 16 \<and> options \<le> 255
     \<and> regex_matches originRegex issuer \<and> length issuer \<le> 65535
     \<and> regex_matches originRegex audience \<and> length audience \<le> 65535
     \<and> issuedTime \<noteq> [] \<and> (\<forall>c\<in>set issuedTime. c \<le> 0x7F) \<and> length issuedTime \<le> 65535
     \<and> length data \<le> 65535 \<and> length binding \<le> 65535
   \<longrightarrow> (\<exists>t fields.
         RecoveryToken_new env None token_id options issuer audience issuedTime data binding
           (Some signature) = Inr t
       \<and> (\<forall>key. crypto_sign env (ecPrivateKeyToPEM key) (tok_raw t) = Inr signature
            \<longrightarrow> RecoveryToken_new env (Some key) token_id options issuer audience issuedTime
                  data binding opt_signature = Inr t)
       \<and> tok_version t = 0 \<and> tok_type t = 0 \<and> tok_id t = token_id \<and> tok_options t = options
       \<and> tok_issuer t = issuer \<and> tok_audience t = audience \<and> tok_issuedTime t = issuedTime
       \<and> tok_data t = data \<and> tok_binding t = binding \<and> tok_signature t = signature
       \<and> tok_raw t = spec_layout 0 0 token_id options (Buffer_from_ascii issuer)
            (Buffer_from_ascii audience) (Buffer_from_ascii issuedTime) data binding
       \<and> length (tok_raw t) = 29 + length issuer + length audience + length issuedTime
            + length data + length binding
       \<and> tok_encoded t = base64_encode env (tok_raw t @ signature)
       \<and> deserialize env (BufferArg (tok_raw t @ signature)) = Inr fields
       \<and> (base64_decode env (tok_encoded t) = tok_raw t @ signature
            \<longrightarrow> deserialize env (StringObject (tok_encoded t)) = Inr fields)
       \<and> js_get fields ''version'' = JSNumber 0
       \<and> js_get fields ''type'' = JSNumber 0
       \<and> js_get fields ''id'' = JSBuffer token_id
       \<and> js_get fields ''options'' = JSNumber options
       \<and> js_get fields ''issuer'' = JSString issuer
       \<and> js_get fields ''audience'' = JSString audience
       \<and> js_get fields ''issuedTime'' = JSString issuedTime
       \<and> js_get fields ''data'' = JSBuffer data
       \<and> js_get fields ''binding'' = JSBuffer binding
       \<and> js_get fields ''signature'' = JSBuffer signature
       \<and> js_get fields ''raw'' = JSBuffer (tok_raw t)
       \<and> js_get fields ''signatureIndex'' = JSNumber (length (tok_raw t))
       \<and> js_get fields ''encoded'' = JSString (tok_encoded t))"
proof
  assume h: "length token_id = 16 \<and> options \<le> 255
     \<and> regex_matches originRegex issuer \<and> length issuer \<le> 65535
     \<and> regex_matches originRegex audience \<and> length audience \<le> 65535
     \<and> issuedTime \<noteq> [] \<and> (\<forall>c\<in>set issuedTime. c \<le> 0x7F) \<and> length issuedTime \<le> 65535
     \<and> length data \<le> 65535 \<and> length binding \<le> 65535"
  let ?raw = "spec_layout 0 0 token_id options (Buffer_from_ascii issuer)
            (Buffer_from_ascii audience) (Buffer_from_ascii issuedTime) data binding"
  let ?t = "\<lparr>tok_version = 0, tok_type = 0, tok_id = token_id, tok_options = options,
             tok_issuer = issuer, tok_audience = audience, tok_data = data,
             tok_binding = binding, tok_issuedTime = issuedTime, tok_raw = ?raw,
             tok_signature = signature,
             tok_encoded = base64_encode env (?raw @ signature)\<rparr>"
  let ?fields = "[''version'' \<mapsto> JSNumber 0, ''type'' \<mapsto> JSNumber 0, ''id'' \<mapsto> JSBuffer token_id,
      ''options'' \<mapsto> JSNumber options, ''issuer'' \<mapsto> JSString issuer,
      ''audience'' \<mapsto> JSString audience, ''issuedTime'' \<mapsto> JSString issuedTime,
      ''data'' \<mapsto> JSBuffer data, ''binding'' \<mapsto> JSBuffer binding,
      ''raw'' \<mapsto> JSBuffer ?raw, ''signatureIndex'' \<mapsto> JSNumber (length ?raw),
      ''signature'' \<mapsto> JSBuffer signature,
      ''encoded'' \<mapsto> JSString (base64_encode env (?raw @ signature))]"
  have e: "effective_issuedTime env issuedTime = issuedTime"
    using h by (simp add: effective_issuedTime_def)
  have n: "RecoveryToken_new env None token_id options issuer audience issuedTime data binding
           (Some signature) = Inr ?t"
    using h by (simp add: RecoveryToken_new_eq e ebind_def)
  have k: "RecoveryToken_new env (Some key) token_id options issuer audience issuedTime
             data binding opt_signature = Inr ?t"
    if "crypto_sign env (ecPrivateKeyToPEM key) ?raw = Inr signature" for key
    using h that by (simp add: RecoveryToken_new_eq e ebind_def)
  have ai: "toString_ascii (Buffer_from_ascii issuer) = issuer"
    using h by (intro toString_ascii_roundtrip origin_ascii) (simp add: regex_matches_originRegex)
  have aa: "toString_ascii (Buffer_from_ascii audience) = audience"
    using h by (intro toString_ascii_roundtrip origin_ascii) (simp add: regex_matches_originRegex)
  have at: "toString_ascii (Buffer_from_ascii issuedTime) = issuedTime"
    using h by (intro toString_ascii_roundtrip) simp
  have db: "deserialize_buffer env (?raw @ signature) = Inr ?fields"
    using h by (subst deserialize_layout) (simp_all add: length_Buffer_from_ascii ai aa at)
  have l: "length ?raw = 29 + length issuer + length audience + length issuedTime
            + length data + length binding"
    using h by (simp add: spec_layout_length length_Buffer_from_ascii)
  have "RecoveryToken_new env None token_id options issuer audience issuedTime data binding
           (Some signature) = Inr ?t
       \<and> (\<forall>key. crypto_sign env (ecPrivateKeyToPEM key) (tok_raw ?t) = Inr signature
            \<longrightarrow> RecoveryToken_new env (Some key) token_id options issuer audience issuedTime
                  data binding opt_signature = Inr ?t)
       \<and> tok_version ?t = 0 \<and> tok_type ?t = 0 \<and> tok_id ?t = token_id \<and> tok_options ?t = options
       \<and> tok_issuer ?t = issuer \<and> tok_audience ?t = audience \<and> tok_issuedTime ?t = issuedTime
       \<and> tok_data ?t = data \<and> tok_binding ?t = binding \<and> tok_signature ?t = signature
       \<and> tok_raw ?t = ?raw
       \<and> length (tok_raw ?t) = 29 + length issuer + length audience + length issuedTime
            + length data + length binding
       \<and> tok_encoded ?t = base64_encode env (tok_raw ?t @ signature)
       \<and> deserialize env (BufferArg (tok_raw ?t @ signature)) = Inr ?fields
       \<and> (base64_decode env (tok_encoded ?t) = tok_raw ?t @ signature
            \<longrightarrow> deserialize env (StringObject (tok_encoded ?t)) = Inr ?fields)
       \<and> js_get ?fields ''version'' = JSNumber 0
       \<and> js_get ?fields ''type'' = JSNumber 0
       \<and> js_get ?fields ''id'' = JSBuffer token_id
       \<and> js_get ?fields ''options'' = JSNumber options
       \<and> js_get ?fields ''issuer'' = JSString issuer
       \<and> js_get ?fields ''audience'' = JSString audience
       \<and> js_get ?fields ''issuedTime'' = JSString issuedTime
       \<and> js_get ?fields ''data'' = JSBuffer data
       \<and> js_get ?fields ''binding'' = JSBuffer binding
       \<and> js_get ?fields ''signature'' = JSBuffer signature
       \<and> js_get ?fields ''raw'' = JSBuffer (tok_raw ?t)
       \<and> js_get ?fields ''signatureIndex'' = JSNumber (length (tok_raw ?t))
       \<and> js_get ?fields ''encoded'' = JSString (tok_encoded ?t)"
    using n k l db by (simp add: deserialize_def js_get_def)
  then show "\<exists>t fields.
         RecoveryToken_new env None token_id options issuer audience issuedTime data binding
           (Some signature) = Inr t
       \<and> (\<forall>key. crypto_sign env (ecPrivateKeyToPEM key) (tok_raw t) = Inr signature
            \<longrightarrow> RecoveryToken_new env (Some key) token_id options issuer audience issuedTime
                  data binding opt_signature = Inr t)
       \<and> tok_version t = 0 \<and> tok_type t = 0 \<and> tok_id t = token_id \<and> tok_options t = options
       \<and> tok_issuer t = issuer \<and> tok_audience t = audience \<and> tok_issuedTime t = issuedTime
       \<and> tok_data t = data \<and> tok_binding t = binding \<and> tok_signature t = signature
       \<and> tok_raw t = spec_layout 0 0 token_id options (Buffer_from_ascii issuer)
            (Buffer_from_ascii audience) (Buffer_from_ascii issuedTime) data binding
       \<and> length (tok_raw t) = 29 + length issuer + length audience + length issuedTime
            + length data + length binding
       \<and> tok_encoded t = base64_encode env (tok_raw t @ signature)
       \<and> deserialize env (BufferArg (tok_raw t @ signature)) = Inr fields
       \<and> (base64_decode env (tok_encoded t) = tok_raw t @ signature
            \<longrightarrow> deserialize env (StringObject (tok_encoded t)) = Inr fields)
       \<and> js_get fields ''version'' = JSNumber 0
       \<and> js_get fields ''type'' = JSNumber 0
       \<and> js_get fields ''id'' = JSBuffer token_id
       \<and> js_get fields ''options'' = JSNumber options
       \<and> js_get fields ''issuer'' = JSString issuer
       \<and> js_get fields ''audience'' = JSString audience
       \<and> js_get fields ''issuedTime'' = JSString issuedTime
       \<and> js_get fields ''data'' = JSBuffer data
       \<and> js_get fields ''binding'' = JSBuffer binding
       \<and> js_get fields ''signature'' = JSBuffer signature
       \<and> js_get fields ''raw'' = JSBuffer (tok_raw t)
       \<and> js_get fields ''signatureIndex'' = JSNumber (length (tok_raw t))
       \<and> js_get fields ''encoded'' = JSString (tok_encoded t)"
    by (intro exI[of _ ?t] exI[of _ ?fields])
qed

lemmas regex_eval = regex_matches_def originRegex_def js_str_def lit_def chr_def in_range_def

text \<open>The round trip at a concrete tuple: the constructor accepts it, the token holds
  its fields, and the deserialized fields are the ones given; the signature starts at
  byte 90.\<close>

theorem C3_roundtrip_witness:
  "\<exists>t fields.
      RecoveryToken_new test_env None example_id 1 (js_str ''https://ap.example'')
          (js_str ''https://rp.example'') (js_str ''2017-01-31T15:04:05+00:00'') [] []
          (Some [0x30, 0x00]) = Inr t
      \<and> RecoveryToken_new test_env (Some (js_str ''P'')) example_id 1
          (js_str ''https://ap.example'') (js_str ''https://rp.example'')
          (js_str ''2017-01-31T15:04:05+00:00'') [] [] None = Inr t
      \<and> tok_id t = example_id \<and> tok_options t = 1
      \<and> tok_issuer t = js_str ''https://ap.example''
      \<and> tok_audience t = js_str ''https://rp.example''
      \<and> tok_signature t = [0x30, 0x00]
      \<and> length (tok_raw t) = 90
      \<and> deserialize test_env (BufferArg (tok_raw t @ [0x30, 0x00])) = Inr fields
      \<and> js_get fields ''version'' = JSNumber 0
      \<and> js_get fields ''type'' = JSNumber 0
      \<and> js_get fields ''id'' = JSBuffer example_id
      \<and> js_get fields ''options'' = JSNumber 1
      \<and> js_get fields ''issuer'' = JSString (js_str ''https://ap.example'')
      \<and> js_get fields ''audience'' = JSString (js_str ''https://rp.example'')
      \<and> js_get fields ''issuedTime'' = JSString (js_str ''2017-01-31T15:04:05+00:00'')
      \<and> js_get fields ''data'' = JSBuffer []
      \<and> js_get fields ''binding'' = JSBuffer []
      \<and> js_get fields ''signature'' = JSBuffer [0x30, 0x00]
      \<and> js_get fields ''signatureIndex'' = JSNumber 90"
proof -
  note T = C3_roundtrip [where env = test_env and token_id = example_id and options = 1
      and issuer = "js_str ''https://ap.example''" and audience = "js_str ''https://rp.example''"
      and issuedTime = "js_str ''2017-01-31T15:04:05+00:00''" and data = "[]" and binding = "[]"
      and signature = "[0x30, 0x00]" and opt_signature = None]
  have pre: "length example_id = 16 \<and> (1::nat) \<le> 255
      \<and> regex_matches originRegex (js_str ''https://ap.example'')
      \<and> length (js_str ''https://ap.example'') \<le> 65535
      \<and> regex_matches originRegex (js_str ''https://rp.example'')
      \<and> length (js_str ''https://rp.example'') \<le> 65535
      \<and> js_str ''2017-01-31T15:04:05+00:00'' \<noteq> []
      \<and> (\<forall>c\<in>set (js_str ''2017-01-31T15:04:05+00:00''). c \<le> 0x7F)
      \<and> length (js_str ''2017-01-31T15:04:05+00:00'') \<le> 65535
      \<and> length ([] :: byte list) \<le> 65535 \<and> length ([] :: byte list) \<le> 65535"
    by (simp add: example_id_def regex_eval)
  have sg: "crypto_sign test_env (ecPrivateKeyToPEM key) raw = Inr [0x30, 0x00]" for key raw
    by (simp add: test_env_def)
  have len: "29 + length (js_str ''https://ap.example'') + length (js_str ''https://rp.example'')
      + length (js_str ''2017-01-31T15:04:05+00:00'') + length ([] :: byte list)
      + length ([] :: byte list) = 90"
    by (simp add: js_str_def)
  from T pre obtain t fields where r:
      "RecoveryToken_new test_env None example_id 1 (js_str ''https://ap.example'')
          (js_str ''https://rp.example'') (js_str ''2017-01-31T15:04:05+00:00'') [] []
          (Some [0x30, 0x00]) = Inr t"
      "\<forall>key. crypto_sign test_env (ecPrivateKeyToPEM key) (tok_raw t) = Inr [0x30, 0x00]
            \<longrightarrow> RecoveryToken_new test_env (Some key) example_id 1 (js_str ''https://ap.example'')
                  (js_str ''https://rp.example'') (js_str ''2017-01-31T15:04:05+00:00'') [] []
                  None = Inr t"
      "tok_id t = example_id" "tok_options t = 1"
      "tok_issuer t = js_str ''https://ap.example''"
      "tok_audience t = js_str ''https://rp.example''"
      "tok_signature t = [0x30, 0x00]"
      "length (tok_raw t) = 29 + length (js_str ''https://ap.example'')
          + length (js_str ''https://rp.example'')
          + length (js_str ''2017-01-31T15:04:05+00:00'') + length ([] :: byte list)
          + length ([] :: byte list)"
      "deserialize test_env (BufferArg (tok_raw t @ [0x30, 0x00])) = Inr fields"
      "js_get fields ''version'' = JSNumber 0"
      "js_get fields ''type'' = JSNumber 0"
      "js_get fields ''id'' = JSBuffer example_id"
      "js_get fields ''options'' = JSNumber 1"
      "js_get fields ''issuer'' = JSString (js_str ''https://ap.example'')"
      "js_get fields ''audience'' = JSString (js_str ''https://rp.example'')"
      "js_get fields ''issuedTime'' = JSString (js_str ''2017-01-31T15:04:05+00:00'')"
      "js_get fields ''data'' = JSBuffer []"
      "js_get fields ''binding'' = JSBuffer []"
      "js_get fields ''signature'' = JSBuffer [0x30, 0x00]"
      "js_get fields ''signatureIndex'' = JSNumber (length (tok_raw t))"
    by blast
  from r(2) sg have s: "RecoveryToken_new test_env (Some (js_str ''P'')) example_id 1
          (js_str ''https://ap.example'') (js_str ''https://rp.example'')
          (js_str ''2017-01-31T15:04:05+00:00'') [] [] None = Inr t"
    by blast
  from r(8) len have l: "length (tok_raw t) = 90" by simp
  show ?thesis
    apply (rule exI[of _ t], rule exI[of _ fields])
    using r(1) s r(3-7) l r(9-19) r(20)[unfolded l] by simp
qed

subsection \<open>A length field that overruns the buffer\<close>

text \<open>
  Claim C5, at the Node SDK. The claim asks that a buffer whose declared lengths pass
  its end is rejected. \<open>Buffer.slice\<close> clamps instead of throwing, and no read follows
  the binding: \<open>deserialize\<close> returns an object for a buffer of 31 bytes whose binding
  length field declares 5 bytes where 2 remain, with the binding cut to 2 bytes, an
  empty signature and a signature index of 34, beyond the end of the buffer.
\<close>

theorem C5_js_binding_overrun_accepted:
  "\<exists>fields. deserialize env (BufferArg overrun_buffer) = Inr fields
     \<and> length overrun_buffer = 31
     \<and> js_get fields ''binding'' = JSBuffer [0x01, 0x02]
     \<and> js_get fields ''signature'' = JSBuffer []
     \<and> js_get fields ''signatureIndex'' = JSNumber 34"
  by (simp add: deserialize_def deserialize_buffer_def overrun_buffer_def readUInt8_def
      readUInt16BE_def buf_slice_def toString_ascii_def ebind_def js_get_def Let_def)

subsection \<open>\<open>isSignatureValid\<close> with the offset omitted\<close>

lemma deserialize_buffer_no_signatureOffset:
  "deserialize_buffer env buf = Inr obj \<Longrightarrow> js_get obj ''signatureOffset'' = JSUndefined"
  by (auto simp: deserialize_buffer_def ebind_def Let_def js_get_def split: sum.splits)

lemma deserialize_buffer_version:
  "deserialize_buffer env buf = Inr obj \<Longrightarrow>
   buf \<noteq> [] \<and> js_get obj ''version'' = JSNumber (unat (hd buf))"
  by (cases buf) (auto simp: deserialize_buffer_def ebind_def Let_def js_get_def readUInt8_def split: sum.splits if_splits)

lemma js_slice_whole: "js_slice xs (JSNumber 0) JSUndefined = xs" "js_slice xs JSUndefined JSUndefined = xs"
  by (simp_all add: js_slice_def slice_start_def slice_end_def buf_slice_def)

lemma verify_loop_False:
  "(\<And>k. k \<in> set keys \<Longrightarrow> crypto_verify env (publicKeyToPEM k) raw sig = Inr False)
   \<Longrightarrow> verify_loop env raw sig keys = Inr False"
  by (induction keys) simp_all

lemma verify_loop_not_True:
  "(\<And>k. k \<in> set keys \<Longrightarrow> crypto_verify env (publicKeyToPEM k) raw sig \<noteq> Inr True)
   \<Longrightarrow> verify_loop env raw sig keys \<noteq> Inr True"
  by (induction keys) (auto split: sum.splits)

lemma verify_loop_throws:
  "(\<And>k. k \<in> set pre \<Longrightarrow> crypto_verify env (publicKeyToPEM k) raw sig = Inr False)
   \<Longrightarrow> crypto_verify env (publicKeyToPEM key) raw sig = Inl e
   \<Longrightarrow> verify_loop env raw sig (pre @ key # post) = Inl e"
  by (induction pre) simp_all

lemmas example_eval = example_countersigned_def example_id_def Buffer_from_ascii_def js_str_def
lemmas deserialize_eval = deserialize_def deserialize_buffer_def readUInt8_def readUInt16BE_def
  ebind_def buf_slice_def toString_ascii_def

lemma example_deserialize:
  "\<exists>obj. deserialize env (BufferArg (example_countersigned [0x30, 0x00])) = Inr obj
     \<and> js_get obj ''version'' = JSNumber 0 \<and> js_get obj ''signatureIndex'' = JSNumber 89"
  by (simp add: example_eval) (simp add: deserialize_eval js_get_def)

text \<open>
  Claim C8 as stated fails for a key list that holds, before the matching key, a key
  that the platform's verifier throws on: the call without the offset throws instead of
  returning \<open>false\<close>. The example token, signed \<open>30 00\<close> under \<open>K\<close>, verifies under
  the list with its offset 89.
\<close>

theorem C8_default_offset_throws_on_undecodable_key:
  "isSignatureValid throwing_env (BufferArg (example_countersigned [0x30, 0x00]))
     [js_str ''?'', js_str ''K''] None = Inl (Error ''PEM routines: no start line'')
   \<and> isSignatureValid throwing_env (BufferArg (example_countersigned [0x30, 0x00]))
       [js_str ''K''] (Some 89) = Inr True"
proof -
  obtain obj where obj:
    "deserialize throwing_env (BufferArg (example_countersigned [0x30, 0x00])) = Inr obj"
    using example_deserialize by blast
  from obj have d: "deserialize_buffer throwing_env (example_countersigned [0x30, 0x00]) = Inr obj"
    by (simp add: deserialize_def)
  have u: "js_get obj ''signatureOffset'' = JSUndefined"
    using d by (rule deserialize_buffer_no_signatureOffset)
  have p: "publicKeyToPEM (js_str ''?'') \<noteq> publicKeyToPEM (js_str ''K'')"
    by (simp add: publicKeyToPEM_def toPEM_def pem_lines.simps js_str_def)
  have v: "isSignatureValid throwing_env (BufferArg (example_countersigned [0x30, 0x00]))
     [js_str ''?'', js_str ''K''] None
     = verify_loop throwing_env (example_countersigned [0x30, 0x00])
         (example_countersigned [0x30, 0x00]) [js_str ''?'', js_str ''K'']"
    by (simp add: isSignatureValid_def obj ebind_def u js_slice_whole)
  have a: "isSignatureValid throwing_env (BufferArg (example_countersigned [0x30, 0x00]))
     [js_str ''?'', js_str ''K''] None = Inl (Error ''PEM routines: no start line'')"
    unfolding v using p by (simp add: throwing_env_def)
  have b: "isSignatureValid throwing_env (BufferArg (example_countersigned [0x30, 0x00]))
       [js_str ''K''] (Some 89) = Inr True"
    by (simp add: example_eval)
       (simp add: isSignatureValid_def ebind_def js_slice_def slice_start_def slice_end_def
          buf_slice_def throwing_env_def js_str_def)
  from a b show ?thesis by simp
qed

text \<open>
  Claim C8, amended. \<open>deserialize\<close> stores the signature's start under
  \<open>signatureIndex\<close>, so the property \<open>signatureOffset\<close> that \<open>isSignatureValid\<close> reads
  when its third argument is omitted is \<open>undefined\<close>: both slices are then the whole
  buffer, and the call verifies the whole buffer as a signature over the whole buffer.
  A well-formed token starts with the version byte 0x00, not with the DER sequence tag
  0x30. So the call never returns \<open>true\<close> when the platform's verifier, under the keys
  of the list, does not accept a signature that does not start with 0x30; it returns
  \<open>false\<close> when the verifier returns \<open>false\<close> for such a signature under every key of
  the list; and when the verifier throws under a key and returns \<open>false\<close> under the
  keys before it, the call throws.
\<close>

theorem C8_default_offset_never_true:
  assumes des: "deserialize env (BufferArg buf) = Inr obj"
    and ver: "js_get obj ''version'' = JSNumber 0"
  shows "js_get obj ''signatureOffset'' = JSUndefined
     \<and> isSignatureValid env (BufferArg buf) keys None = verify_loop env buf buf keys
     \<and> ((\<forall>k\<in>set keys. \<forall>raw sig. sig = [] \<or> hd sig \<noteq> 0x30
            \<longrightarrow> crypto_verify env (publicKeyToPEM k) raw sig \<noteq> Inr True)
          \<longrightarrow> isSignatureValid env (BufferArg buf) keys None \<noteq> Inr True)
     \<and> ((\<forall>k\<in>set keys. \<forall>raw sig. sig = [] \<or> hd sig \<noteq> 0x30
            \<longrightarrow> crypto_verify env (publicKeyToPEM k) raw sig = Inr False)
          \<longrightarrow> isSignatureValid env (BufferArg buf) keys None = Inr False)
     \<and> (keys = pre @ key # post
          \<and> (\<forall>k\<in>set pre. crypto_verify env (publicKeyToPEM k) buf buf = Inr False)
          \<and> crypto_verify env (publicKeyToPEM key) buf buf = Inl e
          \<longrightarrow> isSignatureValid env (BufferArg buf) keys None = Inl e)"
proof -
  from des have d: "deserialize_buffer env buf = Inr obj" by (simp add: deserialize_def)
  have u: "js_get obj ''signatureOffset'' = JSUndefined"
    using d by (rule deserialize_buffer_no_signatureOffset)
  have v: "isSignatureValid env (BufferArg buf) keys None = verify_loop env buf buf keys"
    by (simp add: isSignatureValid_def des ebind_def u js_slice_whole)
  from deserialize_buffer_version [OF d] ver have "buf \<noteq> []" "unat (hd buf) = 0" by simp_all
  then have h: "buf = [] \<or> hd buf \<noteq> 0x30" by auto
  have t: "verify_loop env buf buf keys \<noteq> Inr True"
    if "\<forall>k\<in>set keys. \<forall>raw sig. sig = [] \<or> hd sig \<noteq> 0x30
            \<longrightarrow> crypto_verify env (publicKeyToPEM k) raw sig \<noteq> Inr True"
    using that h by (intro verify_loop_not_True) blast
  have f: "verify_loop env buf buf keys = Inr False"
    if "\<forall>k\<in>set keys. \<forall>raw sig. sig = [] \<or> hd sig \<noteq> 0x30
            \<longrightarrow> crypto_verify env (publicKeyToPEM k) raw sig = Inr False"
    using that h by (intro verify_loop_False) blast
  have x: "verify_loop env buf buf keys = Inl e"
    if "keys = pre @ key # post
          \<and> (\<forall>k\<in>set pre. crypto_verify env (publicKeyToPEM k) buf buf = Inr False)
          \<and> crypto_verify env (publicKeyToPEM key) buf buf = Inl e"
    using that by (simp add: verify_loop_throws)
  from u v t f x show ?thesis unfolding v by blast
qed

text \<open>
  At the example token, signed \<open>30 00\<close> under the key \<open>K\<close>: the call without the
  offset returns \<open>false\<close> under the list of \<open>X\<close> and \<open>K\<close> on the platform whose
  verifier never throws, and does not return \<open>true\<close> on the platform whose verifier
  throws for \<open>X\<close>; the call with the offset 89 returns \<open>true\<close>.
\<close>

theorem C8_default_offset_never_true_witness:
  "isSignatureValid test_env (BufferArg (example_countersigned [0x30, 0x00]))
       [js_str ''X'', js_str ''K''] None = Inr False
   \<and> isSignatureValid throwing_env (BufferArg (example_countersigned [0x30, 0x00]))
       [js_str ''X'', js_str ''K''] None \<noteq> Inr True
   \<and> isSignatureValid throwing_env (BufferArg (example_countersigned [0x30, 0x00]))
       [js_str ''K'', js_str ''X''] None = Inl (Error ''PEM routines: no start line'')
   \<and> isSignatureValid test_env (BufferArg (example_countersigned [0x30, 0x00]))
       [js_str ''X'', js_str ''K''] (Some 89) = Inr True"
proof -
  let ?buf = "example_countersigned [0x30, 0x00]"
  let ?keys = "[js_str ''X'', js_str ''K'']"
  obtain obj where obj: "deserialize test_env (BufferArg ?buf) = Inr obj"
    "js_get obj ''version'' = JSNumber 0"
    using example_deserialize by blast
  obtain obj' where obj': "deserialize throwing_env (BufferArg ?buf) = Inr obj'"
    "js_get obj' ''version'' = JSNumber 0"
    using example_deserialize by blast
  have der: "\<forall>k\<in>set ?keys. \<forall>raw sig. sig = [] \<or> hd sig \<noteq> 0x30
            \<longrightarrow> crypto_verify test_env (publicKeyToPEM k) raw sig = Inr False"
    by (auto simp: test_env_def)
  have der': "\<forall>k\<in>set ?keys. \<forall>raw sig. sig = [] \<or> hd sig \<noteq> 0x30
            \<longrightarrow> crypto_verify throwing_env (publicKeyToPEM k) raw sig \<noteq> Inr True"
    by (auto simp: throwing_env_def)
  have a: "isSignatureValid test_env (BufferArg ?buf) ?keys None = Inr False"
    using C8_default_offset_never_true [OF obj, where keys = ?keys] der by blast
  have b: "isSignatureValid throwing_env (BufferArg ?buf) ?keys None \<noteq> Inr True"
    using C8_default_offset_never_true [OF obj', where keys = ?keys] der' by blast
  have p: "publicKeyToPEM (js_str ''X'') \<noteq> publicKeyToPEM (js_str ''K'')"
    by (simp add: publicKeyToPEM_def toPEM_def pem_lines.simps js_str_def)
  have hd: "hd ?buf \<noteq> 0x30" "?buf \<noteq> []"
    by (simp_all add: example_countersigned_def)
  have k: "crypto_verify throwing_env (publicKeyToPEM (js_str ''K'')) ?buf ?buf = Inr False"
    using hd by (auto simp add: throwing_env_def)
  have x: "crypto_verify throwing_env (publicKeyToPEM (js_str ''X'')) ?buf ?buf
      = Inl (Error ''PEM routines: no start line'')"
    using p by (simp add: throwing_env_def)
  have c: "isSignatureValid throwing_env (BufferArg ?buf) [js_str ''K'', js_str ''X''] None
      = Inl (Error ''PEM routines: no start line'')"
    using C8_default_offset_never_true [OF obj', where keys = "[js_str ''K'', js_str ''X'']"
        and pre = "[js_str ''K'']" and key = "js_str ''X''" and post = "[]"
        and e = "Error ''PEM routines: no start line''"] k x
    by simp
  have d: "isSignatureValid test_env (BufferArg ?buf) ?keys (Some 89) = Inr True"
    using p
    by (simp add: example_eval)
       (simp add: isSignatureValid_def ebind_def js_slice_def slice_start_def slice_end_def
          buf_slice_def test_env_def js_str_def)
  from a b c d show ?thesis by blast
qed

subsection \<open>String arguments\<close>

text \<open>Claim C10 as stated fails: \<open>isSignatureValid\<close> with a string primitive and an
  explicit offset does not throw; with no keys it returns \<open>false\<close>.\<close>

theorem C10_explicit_offset_does_not_throw:
  "isSignatureValid test_env (StringPrim (js_str ''AAAA'')) [] (Some 0) = Inr False"
  by (simp add: isSignatureValid_def ebind_def)

text \<open>
  Claim C10, amended. On a string primitive \<open>deserialize\<close> throws a \<open>TypeError\<close>, and
  so does \<open>isSignatureValid\<close> when the offset is omitted; the string is never
  base64-decoded. With an offset given, \<open>isSignatureValid\<close> does not throw by itself:
  it slices the undecoded string and returns what the key loop returns on the UTF-8
  bytes of the two slices, which is \<open>false\<close> for an empty key list. A boxed \<open>String\<close>
  is decoded and processed as the buffer it decodes to.
\<close>

theorem C10_string_primitive:
  "deserialize env (StringPrim s) = Inl TypeError
   \<and> isSignatureValid env (StringPrim s) keys None = Inl TypeError
   \<and> isSignatureValid env (StringPrim s) keys (Some n)
       = verify_loop env (utf8_encode env (take n s)) (utf8_encode env (drop n s)) keys
   \<and> isSignatureValid env (StringPrim s) [] (Some n) = Inr False
   \<and> deserialize env (StringObject s) = deserialize env (BufferArg (base64_decode env s))
   \<and> isSignatureValid env (StringObject s) keys offset
       = isSignatureValid env (BufferArg (base64_decode env s)) keys offset"
  by (simp add: deserialize_def isSignatureValid_def ebind_def js_slice_def slice_start_def
      slice_end_def buf_slice_def split: option.split sum.split)

section \<open>The Node SDK: validation of a countersigned token\<close>

lemma clock_skew_never_exceeded: "clock_skew_exceeded env s a = False"
  by (simp add: clock_skew_exceeded_def Date_properties_def js_get_def js_to_number_def
      js_minus_def Math_abs_def js_greater_def)

lemma example_new:
  "\<exists>t. CountersignedToken_new test_env example_id 0 (js_str ''https://rp.example'')
     (js_str ''https://ap.example'') (js_str ''2017-01-31T13:04:05.000Z'') [] [] sig = Inr t
     \<and> tok_type t = 1 \<and> tok_signature t = sig"
  by (simp add: CountersignedToken_new_def RecoveryToken_new_eq regex_eval example_id_def
      effective_issuedTime_def ebind_def)

lemma example_layout:
  "example_countersigned sig =
     spec_layout 0 1 example_id 0 (Buffer_from_ascii (js_str ''https://rp.example''))
       (Buffer_from_ascii (js_str ''https://ap.example''))
       (Buffer_from_ascii (js_str ''2017-01-31T13:04:05.000Z'')) [] [] @ sig"
  by (simp add: example_countersigned_def spec_layout_def uint16BE_def Buffer_from_ascii_def
      js_str_def)

lemma example_deserialize_any:
  "deserialize env (BufferArg (example_countersigned sig)) = Inr
     [''version'' \<mapsto> JSNumber 0, ''type'' \<mapsto> JSNumber 1, ''id'' \<mapsto> JSBuffer example_id,
      ''options'' \<mapsto> JSNumber 0,
      ''issuer'' \<mapsto> JSString (js_str ''https://rp.example''),
      ''audience'' \<mapsto> JSString (js_str ''https://ap.example''),
      ''issuedTime'' \<mapsto> JSString (js_str ''2017-01-31T13:04:05.000Z''),
      ''data'' \<mapsto> JSBuffer [], ''binding'' \<mapsto> JSBuffer [],
      ''raw'' \<mapsto> JSBuffer (example_countersigned []),
      ''signatureIndex'' \<mapsto> JSNumber 89,
      ''signature'' \<mapsto> JSBuffer sig,
      ''encoded'' \<mapsto> JSString (base64_encode env (example_countersigned sig))]"
proof -
  let ?L = "spec_layout 0 1 example_id 0 (Buffer_from_ascii (js_str ''https://rp.example''))
       (Buffer_from_ascii (js_str ''https://ap.example''))
       (Buffer_from_ascii (js_str ''2017-01-31T13:04:05.000Z'')) [] []"
  have r: "?L = example_countersigned []"
    using example_layout [of "[]"] by simp
  have l: "length (example_countersigned []) = 89"
    by (simp add: example_eval)
  have a: "toString_ascii (Buffer_from_ascii (js_str ''https://rp.example'')) = js_str ''https://rp.example''"
    "toString_ascii (Buffer_from_ascii (js_str ''https://ap.example'')) = js_str ''https://ap.example''"
    "toString_ascii (Buffer_from_ascii (js_str ''2017-01-31T13:04:05.000Z'')) = js_str ''2017-01-31T13:04:05.000Z''"
    by (simp_all add: toString_ascii_def Buffer_from_ascii_def js_str_def)
  have d: "deserialize_buffer env (?L @ sig) = Inr
     [''version'' \<mapsto> JSNumber 0, ''type'' \<mapsto> JSNumber 1, ''id'' \<mapsto> JSBuffer example_id,
      ''options'' \<mapsto> JSNumber 0,
      ''issuer'' \<mapsto> JSString (toString_ascii (Buffer_from_ascii (js_str ''https://rp.example''))),
      ''audience'' \<mapsto> JSString (toString_ascii (Buffer_from_ascii (js_str ''https://ap.example''))),
      ''issuedTime'' \<mapsto> JSString (toString_ascii (Buffer_from_ascii (js_str ''2017-01-31T13:04:05.000Z''))),
      ''data'' \<mapsto> JSBuffer [], ''binding'' \<mapsto> JSBuffer [],
      ''raw'' \<mapsto> JSBuffer ?L,
      ''signatureIndex'' \<mapsto> JSNumber (length ?L),
      ''signature'' \<mapsto> JSBuffer sig,
      ''encoded'' \<mapsto> JSString (base64_encode env (?L @ sig))]"
    by (rule deserialize_layout) (simp_all add: example_id_def Buffer_from_ascii_def js_str_def)
  show ?thesis
    unfolding deserialize_def js_input.case example_layout [of sig] d
    unfolding r l a ..
qed

lemma example_signature_valid:
  "isSignatureValid test_env (BufferArg (example_countersigned sig)) [js_str ''K''] (Some 89)
   = Inr (sig = [0x30, 0x00])"
  by (simp add: example_eval)
     (simp add: isSignatureValid_def ebind_def js_slice_def slice_start_def slice_end_def
        buf_slice_def test_env_def js_str_def)

lemma example_run:
  assumes t: "CountersignedToken_new test_env example_id 0 (js_str ''https://rp.example'')
     (js_str ''https://ap.example'') (js_str ''2017-01-31T13:04:05.000Z'') [] [] sig = Inr t"
    and v: "isSignatureValid test_env (BufferArg (example_countersigned sig)) [js_str ''K''] (Some 89)
      = Inr valid"
  shows "CountersignedToken_fromSerialized test_env (BufferArg (example_countersigned sig))
     (js_str ''https://rp.example'') (js_str ''https://ap.example'') 3600 [] [js_str ''K'']
   = (if valid then Inr t else Inl (Error ''invalid countersigned token signature''))"
  unfolding CountersignedToken_fromSerialized_def example_deserialize_any
  by (simp add: js_get_def as_buffer_def as_string_def
      as_number_def clock_skew_never_exceeded t v ebind_def)

text \<open>
  Claim C2, at the Node SDK. The claim asks that a token issued more than the allowed
  skew from now is rejected. \<open>issuedTime.value\<close> and \<open>new Date().value\<close> are
  \<open>undefined\<close>, their difference is \<open>NaN\<close>, and \<open>NaN > x\<close> is false: the clock-skew
  test of \<open>CountersignedToken.fromSerialized\<close> never rejects. The example token,
  issued two hours before the clock's time and validly signed, is accepted with an
  allowed skew of 3600 seconds.
\<close>

theorem C2_js_skew_test_never_rejects:
  "clock_skew_exceeded env issuedTime allowedClockSkew = False
   \<and> Date_parse test_env (js_str ''2017-01-31T13:04:05.000Z'') = Num 1485867845000
   \<and> Date_now test_env = 1485867845000 + 2 * 3600 * 1000
   \<and> (\<exists>token. CountersignedToken_fromSerialized test_env
          (BufferArg (example_countersigned [0x30, 0x00]))
          (js_str ''https://rp.example'') (js_str ''https://ap.example'') 3600 []
          [js_str ''K''] = Inr token)"
proof -
  obtain t where t: "CountersignedToken_new test_env example_id 0 (js_str ''https://rp.example'')
     (js_str ''https://ap.example'') (js_str ''2017-01-31T13:04:05.000Z'') [] [] [0x30, 0x00] = Inr t"
    using example_new by blast
  have v: "isSignatureValid test_env (BufferArg (example_countersigned [0x30, 0x00])) [js_str ''K'']
      (Some 89) = Inr True"
    by (simp add: example_signature_valid)
  have "CountersignedToken_fromSerialized test_env
          (BufferArg (example_countersigned [0x30, 0x00]))
          (js_str ''https://rp.example'') (js_str ''https://ap.example'') 3600 []
          [js_str ''K''] = Inr t"
    unfolding example_run [OF t v] by simp
  then show ?thesis
    by (simp add: clock_skew_never_exceeded test_env_def)
qed

section \<open>The platform calls of the Node validation\<close>

lemma snd_run_bind: "snd (run_bind m f) = ebind (snd m) (\<lambda>x. snd (f x))"
  by (simp add: run_bind_def ebind_def split: sum.split)

lemma fst_run_bind:
  "fst (run_bind m f) = fst m @ (case snd m of Inl e \<Rightarrow> [] | Inr x \<Rightarrow> fst (f x))"
  by (simp add: run_bind_def split: sum.split)

lemma run_bind_calls: "run_bind (calls, Inr x) f = apfst ((@) calls) (f x)"
  "run_bind (calls, Inl e) f = (calls, Inl e)"
  by (simp_all add: run_bind_def)

lemma snd_run_simps: "snd (run_return x :: ('k, 'e, 'a) run) = Inr x"
  "snd (run_throw e :: ('k, 'e, 'a) run) = Inl e" "snd (run_pure m :: ('k, 'e, 'a) run) = m"
  "fst (run_return x :: ('k, 'e, 'a) run) = []" "fst (run_throw e :: ('k, 'e, 'a) run) = []"
  "fst (run_pure m :: ('k, 'e, 'a) run) = []"
  by (simp_all add: run_return_def run_throw_def run_pure_def)

text \<open>What a run returns is what the function returns.\<close>

lemma snd_verify_loop_run: "snd (verify_loop_run env raw sig keys) = verify_loop env raw sig keys"
  by (induction keys)
     (simp_all add: snd_run_bind snd_run_simps crypto_verify_run_def ebind_def split: sum.split)

lemma snd_isSignatureValid_run:
  "snd (isSignatureValid_run env serialized keys signatureOffset)
   = isSignatureValid env serialized keys signatureOffset"
  by (simp add: isSignatureValid_run_def isSignatureValid_def Let_def snd_run_bind snd_run_simps
      snd_verify_loop_run ebind_def split: js_input.split sum.split option.split)

lemma snd_clock_skew_exceeded_run:
  "snd (clock_skew_exceeded_run env s a) = Inr (clock_skew_exceeded env s a)"
  by (simp add: clock_skew_exceeded_run_def clock_skew_exceeded_def snd_run_bind snd_run_simps
      new_Date_of_run_def new_Date_run_def ebind_def Let_def Date_properties_def)

lemma fst_clock_skew_exceeded_run:
  "fst (clock_skew_exceeded_run env s a) = [CallDateParse s, CallClock]"
  by (simp add: clock_skew_exceeded_run_def fst_run_bind snd_run_bind snd_run_simps
      new_Date_of_run_def new_Date_run_def ebind_def)

lemma effective_issuedTime_idem:
  "effective_issuedTime env (effective_issuedTime env s) = effective_issuedTime env s"
  by (simp add: effective_issuedTime_def)

lemma RecoveryToken_new_default_time:
  "RecoveryToken_new env privateKey token_id options issuer audience (now_toISOString env)
     data binding signature
   = RecoveryToken_new env privateKey token_id options issuer audience [] data binding signature"
proof -
  have e: "effective_issuedTime env (now_toISOString env) = effective_issuedTime env []"
    by (simp add: effective_issuedTime_def)
  show ?thesis unfolding RecoveryToken_new_eq e ..
qed

lemma snd_CountersignedToken_new_run:
  "snd (CountersignedToken_new_run env token_id options issuer audience issuedTime data binding
          signature)
   = CountersignedToken_new env token_id options issuer audience issuedTime data binding signature"
  by (simp add: CountersignedToken_new_run_def snd_run_bind snd_run_simps
      now_toISOString_run_def ebind_def CountersignedToken_new_def RecoveryToken_new_default_time)

lemma snd_if: "snd (if c then a else b) = (if c then snd a else snd b)"
  by simp

lemma fst_if: "fst (if c then a else b) = (if c then fst a else fst b)"
  by simp

text \<open>What the run returns is what \<open>CountersignedToken.fromSerialized\<close> returns.\<close>

lemma snd_CountersignedToken_fromSerialized_run:
  "snd (CountersignedToken_fromSerialized_run env serialized issuer audience allowedClockSkew
          binding publicKeys)
   = CountersignedToken_fromSerialized env serialized issuer audience allowedClockSkew binding
       publicKeys"
proof (cases "deserialize env serialized")
  case (Inl e)
  then show ?thesis
    by (simp add: CountersignedToken_fromSerialized_run_def CountersignedToken_fromSerialized_def
        snd_run_bind snd_run_simps ebind_def)
next
  case (Inr fields)
  show ?thesis
    unfolding CountersignedToken_fromSerialized_run_def CountersignedToken_fromSerialized_def
      snd_run_bind snd_run_simps Inr ebind_def sum.case snd_if snd_clock_skew_exceeded_run
      snd_CountersignedToken_new_run snd_isSignatureValid_run
    by (rule refl)
qed

text \<open>The calls of a run of \<open>CountersignedToken.fromSerialized\<close>.\<close>

lemma fst_CountersignedToken_fromSerialized_run:
  assumes "deserialize env serialized = Inr obj"
  shows "fst (CountersignedToken_fromSerialized_run env serialized issuer audience allowedClockSkew
          binding publicKeys)
   = (if js_get obj ''version'' \<noteq> JSNumber 0 \<or> js_get obj ''type'' \<noteq> JSNumber 1
         \<or> js_get obj ''issuer'' \<noteq> JSString issuer
         \<or> js_get obj ''audience'' \<noteq> JSString audience
         \<or> as_buffer (js_get obj ''binding'') \<noteq> binding
      then []
      else CallDateParse (as_string (js_get obj ''issuedTime'')) # CallClock #
        fst (CountersignedToken_new_run env
               (as_buffer (js_get obj ''id''))
               (as_number (js_get obj ''options''))
               (as_string (js_get obj ''issuer''))
               (as_string (js_get obj ''audience''))
               (as_string (js_get obj ''issuedTime''))
               (as_buffer (js_get obj ''data''))
               (as_buffer (js_get obj ''binding''))
               (as_buffer (js_get obj ''signature'')))
        @ (case CountersignedToken_new env
               (as_buffer (js_get obj ''id''))
               (as_number (js_get obj ''options''))
               (as_string (js_get obj ''issuer''))
               (as_string (js_get obj ''audience''))
               (as_string (js_get obj ''issuedTime''))
               (as_buffer (js_get obj ''data''))
               (as_buffer (js_get obj ''binding''))
               (as_buffer (js_get obj ''signature'')) of
             Inl e \<Rightarrow> []
           | Inr token \<Rightarrow>
               fst (isSignatureValid_run env serialized publicKeys
                      (Some (as_number (js_get obj ''signatureIndex''))))))"
  unfolding CountersignedToken_fromSerialized_run_def
    fst_run_bind snd_run_bind snd_run_simps assms ebind_def sum.case fst_if snd_if
    snd_clock_skew_exceeded_run fst_clock_skew_exceeded_run clock_skew_never_exceeded
    snd_CountersignedToken_new_run snd_isSignatureValid_run
  by (simp split: sum.split)

lemma fst_CountersignedToken_fromSerialized_run_Inl:
  assumes "deserialize env serialized = Inl e"
  shows "fst (CountersignedToken_fromSerialized_run env serialized issuer audience allowedClockSkew
          binding publicKeys) = []"
  unfolding CountersignedToken_fromSerialized_run_def
    fst_run_bind snd_run_bind snd_run_simps assms sum.case
  by simp

text \<open>
  In every run of \<open>CountersignedToken.fromSerialized\<close> that calls the verifier, the
  date parser and the clock have been called before it.
\<close>

lemma js_clock_is_read_before_verification:
  assumes "CallVerify pem \<in> set (fst (CountersignedToken_fromSerialized_run env serialized issuer
             audience allowedClockSkew binding publicKeys))"
  shows "\<exists>s rest. fst (CountersignedToken_fromSerialized_run env serialized issuer
             audience allowedClockSkew binding publicKeys) = CallDateParse s # CallClock # rest"
proof (cases "deserialize env serialized")
  case (Inl e)
  from assms show ?thesis
    unfolding fst_CountersignedToken_fromSerialized_run_Inl [OF Inl] by simp
next
  case (Inr obj)
  from assms show ?thesis
    unfolding fst_CountersignedToken_fromSerialized_run [OF Inr]
    by (simp split: if_splits)
qed

section \<open>The Java SDK: reading the token\<close>

subsection \<open>A length field is the two bytes, high byte first\<close>

lemma bit_scast_byte: "bit (scast (b :: byte) :: 32 word) n \<and> n < 8 \<longleftrightarrow> bit b n"
proof (cases "n < 8")
  case True
  then have "min 7 n = n" by simp
  with True show ?thesis by (simp add: bit_simps)
next
  case False
  then have "\<not> bit b n" by (auto dest: bit_imp_le_length)
  with False show ?thesis by simp
qed

lemma scast_low_byte: "(scast (b :: byte) :: 32 word) AND 0xFF = ucast b"
proof -
  have m: "(0xFF :: 32 word) = mask 8" by (simp add: mask_eq_exp_minus_1)
  show ?thesis unfolding m
  proof (rule bit_word_eqI)
    fix n assume "n < LENGTH(32)"
    then show "bit (scast b AND mask 8 :: 32 word) n \<longleftrightarrow> bit (ucast b :: 32 word) n"
      using bit_scast_byte [of b n] by (auto simp: bit_and_iff bit_mask_iff bit_ucast_iff)
  qed
qed

lemma scast_high_byte: "push_bit 8 (scast (b :: byte) :: 32 word) AND 0xFF00 = push_bit 8 (ucast b)"
proof -
  have m: "(0xFF00 :: 32 word) = push_bit 8 (mask 8)"
    by (simp add: mask_eq_exp_minus_1 push_bit_eq_mult)
  have "push_bit 8 (scast b :: 32 word) AND push_bit 8 (mask 8) = push_bit 8 (scast b AND mask 8)"
    by (simp add: push_bit_and)
  also have "(scast b :: 32 word) AND mask 8 = ucast b"
    using scast_low_byte [of b] by (simp add: mask_eq_exp_minus_1)
  finally show ?thesis unfolding m .
qed

lemma java_length_value:
  "unat ((push_bit 8 (scast (hi :: byte) :: 32 word) AND 0xFF00) OR (scast (lo :: byte) AND 0xFF))
   = 256 * unat hi + unat lo"
proof -
  have hi: "unat hi < 256" and lo: "unat lo < 256"
    using unsigned_less [of hi, where 'a=nat] unsigned_less [of lo, where 'a=nat] by simp_all
  have uh: "unat (ucast hi :: 32 word) = unat hi" and ul: "unat (ucast lo :: 32 word) = unat lo"
    using hi lo by (simp_all add: unsigned_ucast_eq take_bit_nat_eq_self)
  have disj: "\<not> bit (push_bit 8 (ucast hi :: 32 word)) n \<or> \<not> bit (ucast lo :: 32 word) n" for n
    by (auto simp: bit_simps dest: bit_imp_le_length)
  have e: "push_bit 8 (ucast hi :: 32 word) OR ucast lo = push_bit 8 (ucast hi) + ucast lo"
    using disj by (rule disjunctive_add [symmetric])
  have p: "push_bit 8 (ucast hi :: 32 word) = ucast hi * 256"
    by (simp add: push_bit_eq_mult)
  have "unat (ucast hi :: 32 word) * unat (256 :: 32 word) < 2 ^ LENGTH(32)"
    using hi by (simp add: uh)
  then have m: "unat (ucast hi * 256 :: 32 word) = unat hi * 256"
    by (simp add: unat_mult_lem [THEN iffD1] uh)
  have "unat (ucast hi * 256 :: 32 word) + unat (ucast lo :: 32 word) < 2 ^ LENGTH(32)"
    using hi lo by (simp add: m ul)
  then have "unat (ucast hi * 256 + ucast lo :: 32 word) = unat hi * 256 + unat lo"
    by (simp add: unat_add_lem [THEN iffD1] m ul)
  then have "unat (push_bit 8 (ucast hi :: 32 word) OR ucast lo) = 256 * unat hi + unat lo"
    unfolding e unfolding p by simp
  then show ?thesis
    unfolding scast_low_byte scast_high_byte .
qed

subsection \<open>The parsing constructor\<close>

lemma jread_length_eq:
  "jread_length decoded offset =
     (if offset + 1 < length decoded
      then Inr (256 * unat (decoded ! offset) + unat (decoded ! (offset + 1)))
      else Inl ArrayIndexOutOfBoundsException)"
  by (simp add: jread_length_def jread_def ebind_def java_length_value)

lemma ucast_byte_char_byte: "ucast (ucast (b :: byte) :: jschar) = b"
  by (rule bit_word_eqI) (auto simp add: bit_simps)

lemma base64_placeholder_roundtrip: "map (ucast :: jschar \<Rightarrow> byte) (map ucast bs) = bs"
  by (induction bs) (simp_all add: ucast_byte_char_byte)

lemmas java_example_eval = example_java_token_def example_java_bytes_def
  example_java_recovery_token_def example_java_recovery_bytes_def example_id_def js_str_def

lemmas validateOrigin_eval = validateOrigin_def regex_matches_def ORIGIN_REGEX_def lit_def
  chr_def in_range_def js_str_def

lemma example_java_fields:
  "RecoveryToken_fields test_jenv (map ucast (example_java_bytes sig)) = Inr (example_java_token sig)"
  apply (simp add: example_java_bytes_def example_id_def js_str_def)
  apply (simp add: RecoveryToken_fields_def test_jenv_def ebind_def
     jread_def jread_length_eq copyOfRange_def String_US_ASCII_def)
  apply (simp add: example_java_token_def example_java_bytes_def example_id_def js_str_def
     ucast_byte_char_byte comp_def)
  done

lemma example_java_parse:
  "RecoveryToken_of_encoded test_jenv (map ucast (example_java_bytes sig)) = Inr (example_java_token sig)"
  apply (simp add: RecoveryToken_of_encoded_def example_java_fields ebind_def)
  apply (simp add: example_java_token_def commonSanityCheck_def typedSanityCheck_def VERSION_def
     TYPE_COUNTERSIGNED_TOKEN_def validateOrigin_eval ebind_def)
  done

lemma example_java_token_sel:
  "jt_type (example_java_token sig) = 0x01"
  "jt_version (example_java_token sig) = 0x00"
  "jt_issuer (example_java_token sig) = js_str ''https://rp.example''"
  "jt_audience (example_java_token sig) = js_str ''https://ap.example''"
  "jt_issuedTime (example_java_token sig) = js_str ''2017-01-31T13:04:05+00:00''"
  "jt_binding (example_java_token sig) = []"
  "jt_signature (example_java_token sig) = sig"
  "jt_decoded (example_java_token sig) = example_java_bytes sig"
  by (simp_all add: example_java_token_def)

lemma example_java_signed:
  "RecoveryToken_signed test_jenv 0 (Some example_id) 0x00 (js_str ''https://rp.example'')
      (js_str ''https://ap.example'') (Some []) (Some [])
   = Inr example_java_recovery_token"
  apply (simp add: java_example_eval)
  apply (simp add: RecoveryToken_signed_def ebind_def Let_def validateOrigin_eval
      test_jenv_def putChar_def VERSION_def TYPE_RECOVERY_TOKEN_def)
  done

lemma example_java_reparse:
  "RecoveryToken_of_encoded test_jenv (jt_encoded example_java_recovery_token)
   = Inl (IllegalArgumentException ''illegal token type'')"
  apply (simp add: java_example_eval)
  apply (simp add: RecoveryToken_of_encoded_def RecoveryToken_fields_def test_jenv_def ebind_def
     jread_def jread_length_eq copyOfRange_def String_US_ASCII_def)
  apply (simp add: commonSanityCheck_def typedSanityCheck_def VERSION_def
     TYPE_COUNTERSIGNED_TOKEN_def validateOrigin_eval ebind_def)
  done

lemma RecoveryToken_fields_type:
  assumes "RecoveryToken_fields env encoded = Inr t"
  shows "\<exists>decoded. jBase64_decode env encoded = Inr decoded \<and> 1 < length decoded
           \<and> jt_type t = decoded ! 1 \<and> jt_version t = decoded ! 0 \<and> jt_decoded t = decoded"
  using assms
  by (auto simp add: RecoveryToken_fields_def ebind_def Let_def jread_def split: sum.splits if_splits)

lemma typedSanityCheck_eq:
  "typedSanityCheck this =
     (if jt_type this = 0x01 then Inr () else Inl (IllegalArgumentException ''illegal token type''))"
  by (simp add: typedSanityCheck_def TYPE_COUNTERSIGNED_TOKEN_def)

lemma RecoveryToken_of_encoded_type:
  assumes "RecoveryToken_of_encoded env encoded = Inr t"
  shows "jt_type t = 0x01 \<and> RecoveryToken_fields env encoded = Inr t"
  using assms
  by (auto simp add: RecoveryToken_of_encoded_def ebind_def typedSanityCheck_eq split: sum.splits if_splits)

lemma RecoveryToken_signed_decoded:
  assumes "RecoveryToken_signed env privateKey token_id options issuer audience data binding = Inr tok"
  shows "jt_type tok = 0x00 \<and> jt_decoded tok ! 1 = 0x00 \<and> jt_decoded tok ! 0 = 0x00"
  using assms
  by (auto simp add: RecoveryToken_signed_def ebind_def Let_def VERSION_def TYPE_RECOVERY_TOKEN_def
      split: option.splits sum.splits if_splits)

text \<open>
  Claim C9. \<open>typedSanityCheck\<close> throws an \<open>IllegalArgumentException\<close> for every type
  other than 0x01, so a token that \<open>RecoveryToken(String encoded)\<close> returns has type
  0x01. A token made by the signing constructor has type 0x00, and the parsing
  constructor throws on every string that decodes to the bytes of such a token.
\<close>

theorem C9_java_parse_rejects_recovery_tokens:
  "typedSanityCheck this =
     (if jt_type this = 0x01 then Inr () else Inl (IllegalArgumentException ''illegal token type''))
   \<and> (\<forall>t. RecoveryToken_of_encoded env encoded = Inr t \<longrightarrow> jt_type t = 0x01)
   \<and> (\<forall>tok. RecoveryToken_signed env privateKey token_id options issuer audience data binding = Inr tok
          \<and> jBase64_decode env encoded = Inr (jt_decoded tok)
        \<longrightarrow> jt_type tok = 0x00 \<and> (\<exists>e. RecoveryToken_of_encoded env encoded = Inl e))"
proof (intro conjI allI impI)
  show "typedSanityCheck this =
     (if jt_type this = 0x01 then Inr () else Inl (IllegalArgumentException ''illegal token type''))"
    by (rule typedSanityCheck_eq)
next
  fix t assume "RecoveryToken_of_encoded env encoded = Inr t"
  from RecoveryToken_of_encoded_type[OF this] show "jt_type t = 0x01" by simp
next
  fix tok
  assume a: "RecoveryToken_signed env privateKey token_id options issuer audience data binding = Inr tok
          \<and> jBase64_decode env encoded = Inr (jt_decoded tok)"
  note s = RecoveryToken_signed_decoded[OF conjunct1[OF a]]
  from s show "jt_type tok = 0x00" by simp
  show "\<exists>e. RecoveryToken_of_encoded env encoded = Inl e"
  proof (cases "RecoveryToken_of_encoded env encoded")
    case (Inl e) then show ?thesis by blast
  next
    case (Inr t)
    from RecoveryToken_of_encoded_type[OF Inr] have t1: "jt_type t = 0x01"
      and f: "RecoveryToken_fields env encoded = Inr t" by simp_all
    from RecoveryToken_fields_type[OF f] a have "jt_type t = jt_decoded tok ! 1" by auto
    moreover from s have "jt_decoded tok ! 1 = 0x00" by simp
    ultimately show ?thesis using t1 by simp
  qed
qed

text \<open>
  At the example: the parsing constructor returns the countersigned example token, of
  type 0x01; the signing constructor returns a token of type 0x00, whose encoding the
  parsing constructor rejects with the exception of \<open>typedSanityCheck\<close>.
\<close>

theorem C9_java_parse_rejects_recovery_tokens_witness:
  "RecoveryToken_of_encoded test_jenv (map ucast (example_java_bytes [0x30, 0x00]))
     = Inr (example_java_token [0x30, 0x00])
   \<and> jt_type (example_java_token [0x30, 0x00]) = 0x01
   \<and> RecoveryToken_signed test_jenv 0 (Some example_id) 0x00 (js_str ''https://rp.example'')
        (js_str ''https://ap.example'') (Some []) (Some []) = Inr example_java_recovery_token
   \<and> jBase64_decode test_jenv (jt_encoded example_java_recovery_token)
        = Inr (jt_decoded example_java_recovery_token)
   \<and> jt_type example_java_recovery_token = 0x00
   \<and> RecoveryToken_of_encoded test_jenv (jt_encoded example_java_recovery_token)
        = Inl (IllegalArgumentException ''illegal token type'')"
proof -
  have d: "jBase64_decode test_jenv (jt_encoded example_java_recovery_token)
        = Inr (jt_decoded example_java_recovery_token)"
    by (simp add: test_jenv_def example_java_recovery_token_def base64_placeholder_roundtrip
        del: map_map)
  note p = C9_java_parse_rejects_recovery_tokens[where env = test_jenv
      and encoded = "map ucast (example_java_bytes [0x30, 0x00])"]
  note r = C9_java_parse_rejects_recovery_tokens[where env = test_jenv
      and encoded = "jt_encoded example_java_recovery_token" and privateKey = 0
      and token_id = "Some example_id" and options = 0
      and issuer = "js_str ''https://rp.example''" and audience = "js_str ''https://ap.example''"
      and data = "Some []" and binding = "Some []"]
  from p example_java_parse[of "[0x30, 0x00]"] have "jt_type (example_java_token [0x30, 0x00]) = 0x01"
    by blast
  moreover from r example_java_signed d have "jt_type example_java_recovery_token = 0x00"
    by blast
  ultimately show ?thesis
    using example_java_parse[of "[0x30, 0x00]"] example_java_signed d example_java_reparse by simp
qed

section \<open>Signature verification over a list of keys\<close>

lemma verify_loop_all_False:
  "(\<forall>k\<in>set keys. crypto_verify env (publicKeyToPEM k) raw sig = Inr False)
   \<Longrightarrow> verify_loop env raw sig keys = Inr False"
  by (induction keys) simp_all

lemma verify_loop_first:
  "(\<forall>k\<in>set pre. crypto_verify env (publicKeyToPEM k) raw sig = Inr False)
   \<Longrightarrow> verify_loop env raw sig (pre @ key # post) =
       (case crypto_verify env (publicKeyToPEM key) raw sig of
          Inl e \<Rightarrow> Inl e
        | Inr ok \<Rightarrow> if ok then Inr True else verify_loop env raw sig post)"
  by (induction pre) simp_all

lemma isSignatureValid_Buffer:
  "isSignatureValid env (BufferArg buf) keys (Some offset)
   = verify_loop env (take offset buf) (drop offset buf) keys"
  by (simp add: isSignatureValid_def ebind_def js_slice_def slice_start_def slice_end_def buf_slice_def)

lemma copyOfRange_prefix:
  "copyOfRange xs 0 (length xs - k) = Inr (take (length xs - k) xs)"
  by (simp add: copyOfRange_def)

lemma jverify_loop_all_False:
  "(\<forall>k\<in>set keys. jSignature_verify env k
        (take (length (jt_decoded this) - length (jt_signature this)) (jt_decoded this))
        (jt_signature this) = Inr False)
   \<Longrightarrow> jverify_loop env this keys = Inr False"
  by (induction keys) (simp_all add: copyOfRange_prefix ebind_def)

lemma jverify_loop_first:
  "(\<forall>k\<in>set pre. jSignature_verify env k
        (take (length (jt_decoded this) - length (jt_signature this)) (jt_decoded this))
        (jt_signature this) = Inr False)
   \<Longrightarrow> jverify_loop env this (pre @ key # post) =
       (case jSignature_verify env key
               (take (length (jt_decoded this) - length (jt_signature this)) (jt_decoded this))
               (jt_signature this) of
          Inl e \<Rightarrow> Inl e
        | Inr ok \<Rightarrow> if ok then Inr True else jverify_loop env this post)"
  by (induction pre) (simp_all add: copyOfRange_prefix ebind_def)

lemma copyOfRange_InrD:
  "copyOfRange xs a b = Inr ys \<Longrightarrow> a \<le> b \<and> a \<le> length xs \<and> length ys = b - a"
  by (auto simp add: copyOfRange_def split: if_splits)

lemma RecoveryToken_fields_signature:
  assumes "RecoveryToken_fields env encoded = Inr t"
  shows "take (length (jt_decoded t) - length (jt_signature t)) (jt_decoded t) @ jt_signature t
         = jt_decoded t"
  using assms
  apply (simp add: RecoveryToken_fields_def ebind_def Let_def split: sum.splits)
  apply (auto simp add: copyOfRange_def not_less split: if_splits)
  done

text \<open>
  Claim C4 as stated fails at the Java SDK: \<open>isSignatureValid\<close> catches
  \<open>NoSuchAlgorithmException\<close> only. For the example token with the one-byte signature
  \<open>00\<close>, which is not a DER sequence, the platform's \<open>verify\<close> throws a
  \<open>SignatureException\<close>; it leaves \<open>isSignatureValid\<close> and the constructor of
  \<open>CountersignedRecoveryToken\<close> instead of counting as a key that does not match.
\<close>

theorem C4_java_malformed_signature_throws:
  "RecoveryToken_of_encoded test_jenv (map ucast (example_java_bytes [0x00]))
     = Inr (example_java_token [0x00])
   \<and> jisSignatureValid test_jenv (example_java_token [0x00]) [1] = Inl SignatureException
   \<and> CountersignedRecoveryToken_new test_jenv (map ucast (example_java_bytes [0x00]))
        (js_str ''https://rp.example'') (js_str ''https://ap.example'') [1] 3600 None
       = Inl SignatureException"
proof -
  have v: "jisSignatureValid test_jenv (example_java_token [0x00]) [1] = Inl SignatureException"
    by (simp add: jisSignatureValid_def copyOfRange_prefix ebind_def test_jenv_def
        example_java_token_def)
  have "CountersignedRecoveryToken_new test_jenv (map ucast (example_java_bytes [0x00]))
        (js_str ''https://rp.example'') (js_str ''https://ap.example'') [1] 3600 None
       = Inl SignatureException"
    unfolding CountersignedRecoveryToken_new_def example_java_parse
    using v by (simp add: ebind_def example_java_token_sel)
  with v example_java_parse[of "[0x00]"] show ?thesis by simp
qed

text \<open>
  Claim C4, amended. \<open>isSignatureValid\<close> tries the keys in order, with the bytes before
  the signature as the signed message (in the Node SDK for a buffer and an explicit
  signature offset; in the Java SDK the token's bytes are those bytes followed by the
  signature). It returns false when the platform's verification returns false under
  every key, and true when it returns true under a key and false under every key before
  it. When the verification throws under a key and returns false under every key before
  it, the exception leaves \<open>isSignatureValid\<close>: the keys after it are not tried.
\<close>

theorem C4_first_verifying_key:
  "isSignatureValid env (BufferArg buf) keys (Some offset)
     = verify_loop env (take offset buf) (drop offset buf) keys
   \<and> ((\<forall>k\<in>set keys. crypto_verify env (publicKeyToPEM k) raw sig = Inr False)
        \<longrightarrow> verify_loop env raw sig keys = Inr False)
   \<and> ((\<forall>k\<in>set pre. crypto_verify env (publicKeyToPEM k) raw sig = Inr False)
          \<and> crypto_verify env (publicKeyToPEM key) raw sig = Inr True
        \<longrightarrow> verify_loop env raw sig (pre @ key # post) = Inr True)
   \<and> ((\<forall>k\<in>set pre. crypto_verify env (publicKeyToPEM k) raw sig = Inr False)
          \<and> crypto_verify env (publicKeyToPEM key) raw sig = Inl e
        \<longrightarrow> verify_loop env raw sig (pre @ key # post) = Inl e)
   \<and> (\<forall>t. RecoveryToken_of_encoded jenv encoded = Inr t
        \<longrightarrow> take (length (jt_decoded t) - length (jt_signature t)) (jt_decoded t)
              @ jt_signature t = jt_decoded t)
   \<and> ((\<forall>k\<in>set jkeys. jSignature_verify jenv k (take (length (jt_decoded this) - length (jt_signature this)) (jt_decoded this)) (jt_signature this) = Inr False)
        \<longrightarrow> jisSignatureValid jenv this jkeys = Inr False)
   \<and> ((\<forall>k\<in>set jpre. jSignature_verify jenv k (take (length (jt_decoded this) - length (jt_signature this)) (jt_decoded this)) (jt_signature this) = Inr False)
          \<and> jSignature_verify jenv jkey (take (length (jt_decoded this) - length (jt_signature this)) (jt_decoded this)) (jt_signature this) = Inr True
        \<longrightarrow> jisSignatureValid jenv this (jpre @ jkey # jpost) = Inr True)
   \<and> ((\<forall>k\<in>set jpre. jSignature_verify jenv k (take (length (jt_decoded this) - length (jt_signature this)) (jt_decoded this)) (jt_signature this) = Inr False)
          \<and> jSignature_verify jenv jkey (take (length (jt_decoded this) - length (jt_signature this)) (jt_decoded this)) (jt_signature this) = Inl je
        \<longrightarrow> jisSignatureValid jenv this (jpre @ jkey # jpost) = Inl je)"
proof (intro conjI allI impI)
  show "isSignatureValid env (BufferArg buf) keys (Some offset)
     = verify_loop env (take offset buf) (drop offset buf) keys"
    by (rule isSignatureValid_Buffer)
next
  assume "\<forall>k\<in>set keys. crypto_verify env (publicKeyToPEM k) raw sig = Inr False"
  then show "verify_loop env raw sig keys = Inr False" by (rule verify_loop_all_False)
next
  assume "(\<forall>k\<in>set pre. crypto_verify env (publicKeyToPEM k) raw sig = Inr False)
          \<and> crypto_verify env (publicKeyToPEM key) raw sig = Inr True"
  then show "verify_loop env raw sig (pre @ key # post) = Inr True"
    by (simp add: verify_loop_first)
next
  assume "(\<forall>k\<in>set pre. crypto_verify env (publicKeyToPEM k) raw sig = Inr False)
          \<and> crypto_verify env (publicKeyToPEM key) raw sig = Inl e"
  then show "verify_loop env raw sig (pre @ key # post) = Inl e"
    by (simp add: verify_loop_first)
next
  fix t assume "RecoveryToken_of_encoded jenv encoded = Inr t"
  then have "RecoveryToken_fields jenv encoded = Inr t"
    using RecoveryToken_of_encoded_type by blast
  then show "take (length (jt_decoded t) - length (jt_signature t)) (jt_decoded t)
              @ jt_signature t = jt_decoded t"
    by (rule RecoveryToken_fields_signature)
next
  assume "\<forall>k\<in>set jkeys. jSignature_verify jenv k (take (length (jt_decoded this) - length (jt_signature this)) (jt_decoded this)) (jt_signature this) = Inr False"
  then show "jisSignatureValid jenv this jkeys = Inr False"
    unfolding jisSignatureValid_def by (rule jverify_loop_all_False)
next
  assume "(\<forall>k\<in>set jpre. jSignature_verify jenv k (take (length (jt_decoded this) - length (jt_signature this)) (jt_decoded this)) (jt_signature this) = Inr False)
          \<and> jSignature_verify jenv jkey (take (length (jt_decoded this) - length (jt_signature this)) (jt_decoded this)) (jt_signature this) = Inr True"
  then show "jisSignatureValid jenv this (jpre @ jkey # jpost) = Inr True"
    unfolding jisSignatureValid_def by (simp add: jverify_loop_first)
next
  assume "(\<forall>k\<in>set jpre. jSignature_verify jenv k (take (length (jt_decoded this) - length (jt_signature this)) (jt_decoded this)) (jt_signature this) = Inr False)
          \<and> jSignature_verify jenv jkey (take (length (jt_decoded this) - length (jt_signature this)) (jt_decoded this)) (jt_signature this) = Inl je"
  then show "jisSignatureValid jenv this (jpre @ jkey # jpost) = Inl je"
    unfolding jisSignatureValid_def by (simp add: jverify_loop_first)
qed

text \<open>
  At the examples: the validly signed tokens verify under a key list whose second key
  is the signer's, and do not verify once that key is removed.
\<close>

theorem C4_first_verifying_key_witness:
  "isSignatureValid test_env (BufferArg (example_countersigned [0x30, 0x00]))
     [js_str ''X'', js_str ''K''] (Some 89) = Inr True
   \<and> isSignatureValid test_env (BufferArg (example_countersigned [0x30, 0x00]))
     [js_str ''X''] (Some 89) = Inr False
   \<and> jt_decoded (example_java_token [0x30, 0x00])
       = take 90 (jt_decoded (example_java_token [0x30, 0x00])) @ [0x30, 0x00]
   \<and> jisSignatureValid test_jenv (example_java_token [0x30, 0x00]) [2, 1] = Inr True
   \<and> jisSignatureValid test_jenv (example_java_token [0x30, 0x00]) [2] = Inr False
   \<and> jisSignatureValid test_jenv (example_java_token [0x30, 0x20]) [2, 1] = Inr False
   \<and> jisSignatureValid test_jenv (example_java_token [0x20]) [2, 1] = Inl SignatureException"
proof -
  let ?buf = "example_countersigned [0x30, 0x00]"
  let ?raw = "take 89 ?buf" and ?sig = "drop 89 ?buf"
  let ?t = "example_java_token [0x30, 0x00]"
  let ?u = "example_java_token [0x30, 0x20]"
  let ?w = "example_java_token [0x20]"
  note A = C4_first_verifying_key[where env = test_env and buf = ?buf and offset = 89
      and raw = ?raw and sig = ?sig and keys = "[js_str ''X'', js_str ''K'']"
      and pre = "[js_str ''X'']" and key = "js_str ''K''" and post = "[]" and e = TypeError
      and jenv = test_jenv and encoded = "map ucast (example_java_bytes [0x30, 0x00])"
      and this = ?t and jkeys = "[2]" and jpre = "[2]" and jkey = 1 and jpost = "[]"
      and je = SignatureException]
  note B = C4_first_verifying_key[where env = test_env and buf = ?buf and offset = 89
      and raw = ?raw and sig = ?sig and keys = "[js_str ''X'']"
      and pre = "[]" and key = "js_str ''K''" and post = "[]" and e = TypeError
      and jenv = test_jenv and encoded = "map ucast (example_java_bytes [0x30, 0x20])"
      and this = ?u and jkeys = "[2, 1]" and jpre = "[]" and jkey = 1 and jpost = "[]"
      and je = SignatureException]
  note C = C4_first_verifying_key[where env = test_env and buf = ?buf and offset = 89
      and raw = ?raw and sig = ?sig and keys = "[js_str ''X'']"
      and pre = "[]" and key = "js_str ''K''" and post = "[]" and e = TypeError
      and jenv = test_jenv and encoded = "map ucast (example_java_bytes [0x20])"
      and this = ?w and jkeys = "[]" and jpre = "[]" and jkey = 2 and jpost = "[1]"
      and je = SignatureException]
  have sg: "?sig = [0x30, 0x00]"
    by (simp add: example_countersigned_def example_id_def js_str_def Buffer_from_ascii_def)
  have x: "crypto_verify test_env (publicKeyToPEM (js_str ''X'')) ?raw ?sig = Inr False"
    unfolding sg by (simp add: test_env_def publicKeyToPEM_def toPEM_def pem_lines.simps js_str_def)
  have k: "crypto_verify test_env (publicKeyToPEM (js_str ''K'')) ?raw ?sig = Inr True"
    unfolding sg by (simp add: test_env_def)
  have 1: "isSignatureValid test_env (BufferArg ?buf) [js_str ''X'', js_str ''K''] (Some 89) = Inr True"
    using x k A by simp
  have 2: "isSignatureValid test_env (BufferArg ?buf) [js_str ''X''] (Some 89) = Inr False"
    using x B by simp
  have l: "length (jt_decoded ?t) - length (jt_signature ?t) = 90"
    by (simp add: java_example_eval)
  have 3: "jt_decoded ?t = take 90 (jt_decoded ?t) @ [0x30, 0x00]"
    using A example_java_parse[of "[0x30, 0x00]"] l
    by (simp add: example_java_token_sel)
  have j2: "jSignature_verify test_jenv 2
      (take (length (jt_decoded ?t) - length (jt_signature ?t)) (jt_decoded ?t))
      (jt_signature ?t) = Inr False"
    by (simp add: test_jenv_def example_java_token_sel)
  have j1: "jSignature_verify test_jenv 1
      (take (length (jt_decoded ?t) - length (jt_signature ?t)) (jt_decoded ?t))
      (jt_signature ?t) = Inr True"
    by (simp add: test_jenv_def example_java_token_sel)
  have 4: "jisSignatureValid test_jenv ?t [2, 1] = Inr True"
    using j1 j2 A by simp
  have 5: "jisSignatureValid test_jenv ?t [2] = Inr False"
    using j2 A by simp
  have u: "\<forall>k\<in>set [2, 1]. jSignature_verify test_jenv k
      (take (length (jt_decoded ?u) - length (jt_signature ?u)) (jt_decoded ?u))
      (jt_signature ?u) = Inr False"
    by (simp add: test_jenv_def example_java_token_sel)
  have 6: "jisSignatureValid test_jenv ?u [2, 1] = Inr False"
    using u B by blast
  have w: "jSignature_verify test_jenv 2
      (take (length (jt_decoded ?w) - length (jt_signature ?w)) (jt_decoded ?w))
      (jt_signature ?w) = Inl SignatureException"
    by (simp add: test_jenv_def example_java_token_sel)
  have 7: "jisSignatureValid test_jenv ?w [2, 1] = Inl SignatureException"
    using w C by simp
  from 1 2 3 4 5 6 7 show ?thesis by simp
qed

section \<open>Origin validation in the constructors\<close>












section \<open>The order of the signature check and the clock-skew test\<close>

lemma snd_jverify_loop_run: "snd (jverify_loop_run env this keys) = jverify_loop env this keys"
  by (induction keys)
     (simp_all add: snd_run_bind snd_run_simps jSignature_verify_run_def ebind_def snd_if
        split: sum.split)

lemma snd_jisSignatureValid_run:
  "snd (jisSignatureValid_run env this keys) = jisSignatureValid env this keys"
  by (simp add: jisSignatureValid_run_def jisSignatureValid_def snd_jverify_loop_run)

lemma fst_jverify_loop_run:
  "c \<in> set (fst (jverify_loop_run env this keys)) \<Longrightarrow> \<exists>key. c = CallVerify key"
  by (induction keys)
     (auto simp add: fst_run_bind snd_run_bind snd_run_simps jSignature_verify_run_def ebind_def
        split: sum.splits if_splits)

text \<open>What the run returns is what the constructor returns or throws.\<close>

lemma snd_CountersignedRecoveryToken_run:
  "snd (CountersignedRecoveryToken_run env encoded issuer audience keys allowedClockSkewSec binding)
   = CountersignedRecoveryToken_new env encoded issuer audience keys allowedClockSkewSec binding"
proof (cases "RecoveryToken_of_encoded env encoded")
  case (Inl e)
  then show ?thesis
    by (simp add: CountersignedRecoveryToken_run_def CountersignedRecoveryToken_new_def
        snd_run_bind snd_run_simps ebind_def)
next
  case (Inr this)
  show ?thesis
    unfolding CountersignedRecoveryToken_run_def CountersignedRecoveryToken_new_def
      snd_run_bind snd_run_simps Inr ebind_def sum.case snd_if snd_jisSignatureValid_run
      fromISO8601_run_def jDate_getTime_run_def snd_conv
    by (simp split: sum.split option.split)
qed

text \<open>The calls of a run of the constructor.\<close>

lemma fst_CountersignedRecoveryToken_run:
  assumes "RecoveryToken_of_encoded env encoded = Inr this"
  shows "fst (CountersignedRecoveryToken_run env encoded issuer audience keys allowedClockSkewSec
            binding)
   = (if jt_issuer this \<noteq> issuer \<or> jt_audience this \<noteq> audience
         \<or> (binding \<noteq> None \<and> Some (jt_binding this) \<noteq> binding)
      then []
      else fst (jisSignatureValid_run env this keys)
        @ (if jisSignatureValid env this keys = Inr True
           then CallDateParse (jt_issuedTime this)
                # (if fromISO8601 env (jt_issuedTime this) = None then [] else [CallClock])
           else []))"
  unfolding CountersignedRecoveryToken_run_def
    fst_run_bind snd_run_bind snd_run_simps assms ebind_def sum.case fst_if snd_if
    snd_jisSignatureValid_run fromISO8601_run_def jDate_getTime_run_def snd_conv fst_conv
  by (auto split: sum.split option.split)

lemma fst_CountersignedRecoveryToken_run_Inl:
  assumes "RecoveryToken_of_encoded env encoded = Inl e"
  shows "fst (CountersignedRecoveryToken_run env encoded issuer audience keys allowedClockSkewSec
            binding) = []"
  unfolding CountersignedRecoveryToken_run_def
    fst_run_bind snd_run_bind snd_run_simps assms sum.case
  by simp

text \<open>
  In every run of the constructor of \<open>CountersignedRecoveryToken\<close> that calls the date
  parser or the clock, the signature has been verified before.
\<close>

lemma java_signature_is_verified_before_clock:
  assumes "CallClock \<in> set (fst (CountersignedRecoveryToken_run env encoded issuer audience keys
             allowedClockSkewSec binding))
           \<or> CallDateParse s \<in> set (fst (CountersignedRecoveryToken_run env encoded issuer
             audience keys allowedClockSkewSec binding))"
  shows "\<exists>this. RecoveryToken_of_encoded env encoded = Inr this
           \<and> jisSignatureValid env this keys = Inr True"
proof (cases "RecoveryToken_of_encoded env encoded")
  case (Inl e)
  from assms show ?thesis
    unfolding fst_CountersignedRecoveryToken_run_Inl [OF Inl] by simp
next
  case (Inr this)
  have "jisSignatureValid env this keys = Inr True"
    using assms fst_jverify_loop_run [of _ env this keys]
    unfolding fst_CountersignedRecoveryToken_run [OF Inr] jisSignatureValid_run_def
    by (auto split: if_splits)
  with Inr show ?thesis by simp
qed

lemma example_new_run:
  "fst (CountersignedToken_new_run test_env example_id 0 (js_str ''https://rp.example'')
     (js_str ''https://ap.example'') (js_str ''2017-01-31T13:04:05.000Z'') [] [] sig) = []"
  by (simp add: CountersignedToken_new_run_def fst_run_bind snd_run_simps js_str_def)

lemma example_signature_valid_run:
  "fst (isSignatureValid_run test_env (BufferArg (example_countersigned sig)) [js_str ''K''] (Some 89))
   = [CallVerify (publicKeyToPEM (js_str ''K''))]"
  by (simp add: isSignatureValid_run_def fst_run_bind snd_run_bind snd_run_simps
      crypto_verify_run_def test_env_def fst_if)

lemma example_skew_exceeded: "skew_exceeded 1485867845000 1485875045000 3600 = True"
  by (simp add: skew_exceeded_def Math_abs_long_def Let_def)

text \<open>
  Claim C1, at the Node SDK. The claim asks that a token whose signature does not verify
  is rejected for the signature before the clock-skew comparison runs. For the example
  token with a signature that does not verify, \<open>CountersignedToken.fromSerialized\<close>
  parses the issued time, reads the clock and only then calls the verifier, before it
  rejects the token for its signature. On the same token the constructor of
  \<open>CountersignedRecoveryToken\<close> of the Java SDK calls the verifier and rejects the token
  without parsing the issued time or reading the clock; on the validly signed token it
  parses the issued time and reads the clock after the verifier has accepted the
  signature, and rejects the token, issued two hours before, for its clock skew.
\<close>

theorem C1_js_reads_clock_before_verifying:
  "CountersignedToken_fromSerialized_run test_env (BufferArg (example_countersigned [0x30, 0x20]))
     (js_str ''https://rp.example'') (js_str ''https://ap.example'') 3600 [] [js_str ''K'']
   = ([CallDateParse (js_str ''2017-01-31T13:04:05.000Z''), CallClock,
       CallVerify (publicKeyToPEM (js_str ''K''))],
      Inl (Error ''invalid countersigned token signature''))
   \<and> CountersignedToken_fromSerialized test_env (BufferArg (example_countersigned [0x30, 0x20]))
       (js_str ''https://rp.example'') (js_str ''https://ap.example'') 3600 [] [js_str ''K'']
     = Inl (Error ''invalid countersigned token signature'')
   \<and> CountersignedRecoveryToken_run test_jenv (map ucast (example_java_bytes [0x30, 0x20]))
       (js_str ''https://rp.example'') (js_str ''https://ap.example'') [1] 3600 (Some [])
     = ([CallVerify 1], Inl (InvalidTokenException ''token signature didn't verify''))
   \<and> CountersignedRecoveryToken_new test_jenv (map ucast (example_java_bytes [0x30, 0x20]))
       (js_str ''https://rp.example'') (js_str ''https://ap.example'') [1] 3600 (Some [])
     = Inl (InvalidTokenException ''token signature didn't verify'')
   \<and> CountersignedRecoveryToken_run test_jenv (map ucast (example_java_bytes [0x30, 0x00]))
       (js_str ''https://rp.example'') (js_str ''https://ap.example'') [1] 3600 (Some [])
     = ([CallVerify 1, CallDateParse (js_str ''2017-01-31T13:04:05+00:00''), CallClock],
        Inl (InvalidTokenException ''Issued time for token outside valid clock skew window.''))"
proof -
  let ?js = "CountersignedToken_fromSerialized_run test_env
     (BufferArg (example_countersigned [0x30, 0x20]))
     (js_str ''https://rp.example'') (js_str ''https://ap.example'') 3600 [] [js_str ''K'']"
  let ?java = "CountersignedRecoveryToken_run test_jenv (map ucast (example_java_bytes [0x30, 0x20]))
       (js_str ''https://rp.example'') (js_str ''https://ap.example'') [1] 3600 (Some [])"
  let ?late = "CountersignedRecoveryToken_run test_jenv (map ucast (example_java_bytes [0x30, 0x00]))
       (js_str ''https://rp.example'') (js_str ''https://ap.example'') [1] 3600 (Some [])"
  obtain t where t: "CountersignedToken_new test_env example_id 0 (js_str ''https://rp.example'')
     (js_str ''https://ap.example'') (js_str ''2017-01-31T13:04:05.000Z'') [] [] [0x30, 0x20] = Inr t"
    using example_new by blast
  have v: "isSignatureValid test_env (BufferArg (example_countersigned [0x30, 0x20])) [js_str ''K'']
      (Some 89) = Inr False"
    by (simp add: example_signature_valid)
  have 1: "snd ?js = Inl (Error ''invalid countersigned token signature'')"
    unfolding snd_CountersignedToken_fromSerialized_run example_run [OF t v] by simp
  have 2: "fst ?js = [CallDateParse (js_str ''2017-01-31T13:04:05.000Z''), CallClock,
       CallVerify (publicKeyToPEM (js_str ''K''))]"
    unfolding fst_CountersignedToken_fromSerialized_run [OF example_deserialize_any]
    by (simp add: js_get_def as_buffer_def as_string_def as_number_def example_new_run t
        example_signature_valid_run)
  have jv: "jisSignatureValid test_jenv (example_java_token [0x30, 0x20]) [1] = Inr False"
    by (simp add: jisSignatureValid_def copyOfRange_prefix ebind_def test_jenv_def
        example_java_token_sel)
  have 3: "snd ?java = Inl (InvalidTokenException ''token signature didn't verify'')"
    unfolding snd_CountersignedRecoveryToken_run CountersignedRecoveryToken_new_def
      example_java_parse
    using jv by (simp add: ebind_def example_java_token_sel)
  have 4: "fst ?java = [CallVerify 1]"
    unfolding fst_CountersignedRecoveryToken_run [OF example_java_parse] jv
    by (simp add: example_java_token_sel jisSignatureValid_run_def fst_run_bind snd_run_bind
        snd_run_simps jSignature_verify_run_def copyOfRange_prefix test_jenv_def fst_if)
  have jw: "jisSignatureValid test_jenv (example_java_token [0x30, 0x00]) [1] = Inr True"
    by (simp add: jisSignatureValid_def copyOfRange_prefix ebind_def test_jenv_def
        example_java_token_sel)
  have p: "fromISO8601 test_jenv (js_str ''2017-01-31T13:04:05+00:00'') = Some 1485867845000"
    "jDate_getTime test_jenv = 1485875045000"
    by (simp_all add: test_jenv_def)
  have 5: "snd ?late
      = Inl (InvalidTokenException ''Issued time for token outside valid clock skew window.'')"
    unfolding snd_CountersignedRecoveryToken_run CountersignedRecoveryToken_new_def
      example_java_parse
    using jw by (simp add: ebind_def example_java_token_sel p example_skew_exceeded)
  have 6: "fst ?late
      = [CallVerify 1, CallDateParse (js_str ''2017-01-31T13:04:05+00:00''), CallClock]"
    unfolding fst_CountersignedRecoveryToken_run [OF example_java_parse] jw
    by (simp add: example_java_token_sel jisSignatureValid_run_def fst_run_bind snd_run_bind
        snd_run_simps jSignature_verify_run_def copyOfRange_prefix fst_if p)
       (simp add: test_jenv_def snd_run_simps)
  from 1 2 have a: "?js = ([CallDateParse (js_str ''2017-01-31T13:04:05.000Z''), CallClock,
       CallVerify (publicKeyToPEM (js_str ''K''))],
      Inl (Error ''invalid countersigned token signature''))"
    by (simp add: prod_eq_iff)
  from 3 4 have b: "?java = ([CallVerify 1],
      Inl (InvalidTokenException ''token signature didn't verify''))"
    by (simp add: prod_eq_iff)
  from 5 6 have c: "?late
      = ([CallVerify 1, CallDateParse (js_str ''2017-01-31T13:04:05+00:00''), CallClock],
        Inl (InvalidTokenException ''Issued time for token outside valid clock skew window.''))"
    by (simp add: prod_eq_iff)
  from 1 have d: "CountersignedToken_fromSerialized test_env
       (BufferArg (example_countersigned [0x30, 0x20]))
       (js_str ''https://rp.example'') (js_str ''https://ap.example'') 3600 [] [js_str ''K'']
     = Inl (Error ''invalid countersigned token signature'')"
    unfolding snd_CountersignedToken_fromSerialized_run .
  from 3 have e: "CountersignedRecoveryToken_new test_jenv (map ucast (example_java_bytes [0x30, 0x20]))
       (js_str ''https://rp.example'') (js_str ''https://ap.example'') [1] 3600 (Some [])
     = Inl (InvalidTokenException ''token signature didn't verify'')"
    unfolding snd_CountersignedRecoveryToken_run .
  from a b c d e show ?thesis by simp
qed

end
